theory Spec2Isabelle
  imports Complex_Main
begin

section \<open>The AD936x transceiver class (\<^verbatim>\<open>ad936x.py\<close>)\<close>

text \<open>
  The theory embeds the class \<^verbatim>\<open>ad936x\<close>: the sample-rate setter with its
  filter table and its sequence of attribute accesses, the gain, bandwidth and
  local-oscillator setters, the constructor and \<^verbatim>\<open>rx_only\<close>.

  Python exceptions are values of the type \<open>error\<close>, named as Python names them.
  \<open>Exception\<close> carries its message, since the class raises it with three
  different ones.
\<close>

datatype error =
    ValueError
  | TypeError
  | IndexError
  | ZeroDivisionError
  | AttributeError
  | Exception string

subsection \<open>Python primitives the class uses\<close>

text \<open>\<^verbatim>\<open>str(n)\<close> for an integer: decimal digits, a leading minus sign when negative.\<close>

fun str_nat :: "nat \<Rightarrow> string" where
  "str_nat n =
     (if n < 10 then [''0123456789'' ! n]
      else str_nat (n div 10) @ [''0123456789'' ! (n mod 10)])"

declare str_nat.simps [simp del]

definition str_int :: "int \<Rightarrow> string" where
  "str_int i = (if i < 0 then ''-'' @ str_nat (nat (- i)) else str_nat (nat i))"

text \<open>The line feed \<^verbatim>\<open>"\n"\<close>.\<close>

definition NL :: string where
  "NL = [CHR 0x0A]"

text \<open>
  \<^verbatim>\<open>s.split(sep)\<close> with a one-character separator: every occurrence of the
  separator cuts, empty fields are kept, and the result is never empty.
\<close>

fun split :: "char \<Rightarrow> string \<Rightarrow> string list" where
  "split sep [] = [[]]"
| "split sep (c # cs) =
     (if c = sep then [] # split sep cs
      else (case split sep cs of
              [] \<Rightarrow> [[c]]
            | w # ws \<Rightarrow> (c # w) # ws))"

text \<open>\<^verbatim>\<open>xs[k]\<close> for a non-negative constant index: \<^verbatim>\<open>IndexError\<close> out of range.\<close>

definition index :: "'a list \<Rightarrow> nat \<Rightarrow> error + 'a" where
  "index xs k = (if k < length xs then Inr (xs ! k) else Inl IndexError)"

text \<open>
  \<^verbatim>\<open>int(s)\<close> for a string, in base ten. A character stands for a code point
  below 256. White space on both sides is dropped: the space, the
  characters 0x09 to 0x0D, and the two white-space characters beyond ASCII,
  0x85 and 0xA0. Then one sign is allowed, then decimal digits, where single
  underscores may stand between digits. More than 4300 digits (the
  interpreter's default for \<^verbatim>\<open>sys.int_max_str_digits\<close>; underscores and the
  sign do not count, leading zeros do) are refused. Anything else is a
  \<^verbatim>\<open>ValueError\<close> too.
\<close>

definition is_space :: "char \<Rightarrow> bool" where
  "is_space c = (c \<in> set [CHR 0x20, CHR 0x09, CHR 0x0A, CHR 0x0B, CHR 0x0C, CHR 0x0D,
                             CHR 0x85, CHR 0xA0])"

definition digit_val :: "char \<Rightarrow> nat option" where
  "digit_val c =
     map_of [(CHR ''0'', 0), (CHR ''1'', 1), (CHR ''2'', 2), (CHR ''3'', 3), (CHR ''4'', 4),
             (CHR ''5'', 5), (CHR ''6'', 6), (CHR ''7'', 7), (CHR ''8'', 8), (CHR ''9'', 9)] c"

definition int_max_str_digits :: nat where
  "int_max_str_digits = 4300"

definition digit_count :: "string \<Rightarrow> nat" where
  "digit_count s = length (filter (\<lambda>c. digit_val c \<noteq> None) s)"

text \<open>
  The digits after the sign, read left to right with the value so far;
  \<open>und\<close> says that the previous character was an underscore.
\<close>

fun int_digits :: "nat \<Rightarrow> bool \<Rightarrow> string \<Rightarrow> nat option" where
  "int_digits acc und [] = (if und then None else Some acc)"
| "int_digits acc und (c # cs) =
     (if c = CHR ''_'' then (if und then None else int_digits acc True cs)
      else (case digit_val c of
              None \<Rightarrow> None
            | Some d \<Rightarrow> int_digits (10 * acc + d) False cs))"

definition int_unsigned :: "string \<Rightarrow> nat option" where
  "int_unsigned s =
     (case s of
        [] \<Rightarrow> None
      | c # cs \<Rightarrow> (case digit_val c of
                     None \<Rightarrow> None
                   | Some d \<Rightarrow>
                       (if int_max_str_digits < digit_count s then None
                        else int_digits d False cs)))"

definition strip :: "string \<Rightarrow> string" where
  "strip s = rev (dropWhile is_space (rev (dropWhile is_space s)))"

definition py_int :: "string \<Rightarrow> error + int" where
  "py_int s =
     (case strip s of
        [] \<Rightarrow> Inl ValueError
      | c # cs \<Rightarrow>
          (if c = CHR ''-'' then
             (case int_unsigned cs of None \<Rightarrow> Inl ValueError | Some n \<Rightarrow> Inr (- int n))
           else if c = CHR ''+'' then
             (case int_unsigned cs of None \<Rightarrow> Inl ValueError | Some n \<Rightarrow> Inr (int n))
           else
             (case int_unsigned (c # cs) of None \<Rightarrow> Inl ValueError | Some n \<Rightarrow> Inr (int n))))"

subsection \<open>The filter table\<close>

text \<open>
  The \<^verbatim>\<open>if\<close>/\<^verbatim>\<open>elif\<close> chain of the setter that chooses \<^verbatim>\<open>dec\<close>, \<^verbatim>\<open>fir\<close> and
  \<^verbatim>\<open>taps\<close> from the requested rate. The four coefficient lists are the
  source's, entry by entry (the source writes some zeros as \<^verbatim>\<open>-0\<close>).
\<close>

definition fir_20M :: "int list" where
  "fir_20M = [
    -15, -27, -23, -6, 17, 33, 31, 9, -23, -47, -45, -13, 34, 69,
    67, 21, -49, -102, -99, -32, 69, 146, 143, 48, -96, -204, -200,
    -69, 129, 278, 275, 97, -170, -372, -371, -135, 222, 494, 497,
    187, -288, -654, -665, -258, 376, 875, 902, 363, -500, -1201,
    -1265, -530, 699, 1748, 1906, 845, -1089, -2922, -3424, -1697,
    2326, 7714, 12821, 15921, 15921, 12821, 7714, 2326, -1697,
    -3424, -2922, -1089, 845, 1906, 1748, 699, -530, -1265, -1201,
    -500, 363, 902, 875, 376, -258, -665, -654, -288, 187, 497,
    494, 222, -135, -371, -372, -170, 97, 275, 278, 129, -69, -200,
    -204, -96, 48, 143, 146, 69, -32, -99, -102, -49, 21, 67, 69,
    34, -13, -45, -47, -23, 9, 31, 33, 17, -6, -23, -27, -15]"

definition fir_40M :: "int list" where
  "fir_40M = [
    -0, 0, 1, -0, -2, 0, 3, -0, -5, 0, 8, -0, -11, 0, 17, -0, -24,
    0, 33, -0, -45, 0, 61, -0, -80, 0, 104, -0, -134, 0, 169, -0,
    -213, 0, 264, -0, -327, 0, 401, -0, -489, 0, 595, -0, -724, 0,
    880, -0, -1075, 0, 1323, -0, -1652, 0, 2114, -0, -2819, 0,
    4056, -0, -6883, 0, 20837, 32767, 20837, 0, -6883, -0, 4056, 0,
    -2819, -0, 2114, 0, -1652, -0, 1323, 0, -1075, -0, 880, 0,
    -724, -0, 595, 0, -489, -0, 401, 0, -327, -0, 264, 0, -213, -0,
    169, 0, -134, -0, 104, 0, -80, -0, 61, 0, -45, -0, 33, 0, -24,
    -0, 17, 0, -11, -0, 8, 0, -5, -0, 3, 0, -2, -0, 1, 0, -0, 0]"

definition fir_53M :: "int list" where
  "fir_53M = [
    -4, 0, 8, -0, -14, 0, 23, -0, -36, 0, 52, -0, -75, 0, 104, -0,
    -140, 0, 186, -0, -243, 0, 314, -0, -400, 0, 505, -0, -634, 0,
    793, -0, -993, 0, 1247, -0, -1585, 0, 2056, -0, -2773, 0, 4022,
    -0, -6862, 0, 20830, 32767, 20830, 0, -6862, -0, 4022, 0,
    -2773, -0, 2056, 0, -1585, -0, 1247, 0, -993, -0, 793, 0, -634,
    -0, 505, 0, -400, -0, 314, 0, -243, -0, 186, 0, -140, -0, 104,
    0, -75, -0, 52, 0, -36, -0, 23, 0, -14, -0, 8, 0, -4, 0]"

definition fir_max :: "int list" where
  "fir_max = [
    -58, 0, 83, -0, -127, 0, 185, -0, -262, 0, 361, -0, -488, 0,
    648, -0, -853, 0, 1117, -0, -1466, 0, 1954, -0, -2689, 0, 3960,
    -0, -6825, 0, 20818, 32767, 20818, 0, -6825, -0, 3960, 0,
    -2689, -0, 1954, 0, -1466, -0, 1117, 0, -853, -0, 648, 0, -488,
    -0, 361, 0, -262, -0, 185, 0, -127, 0, 83, 0, -58, 0]"

record profile =
  dec :: int
  fir :: "int list"
  taps :: int

definition filter_table :: "int \<Rightarrow> profile" where
  "filter_table rate =
     (if rate \<le> 20000000 then \<lparr>dec = 4, fir = fir_20M, taps = 128\<rparr>
      else if rate \<le> 40000000 then \<lparr>dec = 2, fir = fir_40M, taps = 128\<rparr>
      else if rate \<le> 53333333 then \<lparr>dec = 2, fir = fir_53M, taps = 96\<rparr>
      else \<lparr>dec = 2, fir = fir_max, taps = 64\<rparr>)"

text \<open>
  The table of the specification, read as four independent brackets: every
  bracket that holds the rate contributes its decimation and tap count.
\<close>

definition spec_brackets :: "int \<Rightarrow> (int \<times> int) list" where
  "spec_brackets r =
     (if r \<le> 20000000 then [(4, 128)] else []) @
     (if 20000000 < r \<and> r \<le> 40000000 then [(2, 128)] else []) @
     (if 40000000 < r \<and> r \<le> 53333333 then [(2, 96)] else []) @
     (if 53333333 < r then [(2, 64)] else [])"

subsection \<open>The device behind the attribute primitives\<close>

text \<open>
  The attribute primitives (\<^verbatim>\<open>_get_iio_attr\<close>, \<^verbatim>\<open>_set_iio_attr\<close> and their
  variants) and the hook \<^verbatim>\<open>_rx_buffered_data\<close> belong to the base classes and
  the subclasses, which this file does not hold. They are taken as a parameter:
  every call is recorded as an event of the type \<open>io\<close>, in the order of the
  calls, and a \<open>device\<close> gives the answer of each read from the events recorded
  before it, so that an answer may depend on every earlier access. Numeric
  attributes read as integers (the sampling frequency in Hz, the 0/1 filter
  flag). The primitives are taken to return normally.
\<close>

datatype val = IntV int | FloatV real | StrV string

datatype io =
    GetAttr string string bool
  | GetAttrStr string string bool
  | SetAttr string string bool val
  | SetAttrFloat string string bool val
  | SetAttrInt string string bool val
  | GetDevAttrStr string
  | SetDevAttrStr string string
  | RxBufferedData

record device =
  attr_value :: "io list \<Rightarrow> string \<Rightarrow> string \<Rightarrow> bool \<Rightarrow> int"
  attr_str :: "io list \<Rightarrow> string \<Rightarrow> string \<Rightarrow> bool \<Rightarrow> string"
  dev_attr_str :: "io list \<Rightarrow> string \<Rightarrow> string"
  buffered_data :: "io list \<Rightarrow> real list"

text \<open>
  The values \<^verbatim>\<open>rx_data\<close> and \<^verbatim>\<open>tx_data\<close> can hold, and the two values the
  test of line 271 builds.
\<close>

datatype pyobj = PyList "complex list" | PyComplex complex | PyBool bool | PyInt int

text \<open>
  The object. An attribute that no assignment has set yet is \<open>None\<close>. A
  context is identified by the URI it was opened with, the receive device by
  its name. \<open>io_trace\<close> is the record of the accesses made so far, oldest first.
\<close>

record ad936x =
  ctx :: "string option"
  uri :: "string option"
  rxadc :: "string option"
  rx_buffer_size :: "int option"
  rx_data :: "pyobj option"
  tx_data :: "pyobj option"
  io_trace :: "io list"

definition get_iio_attr :: "device \<Rightarrow> string \<Rightarrow> string \<Rightarrow> bool \<Rightarrow> ad936x \<Rightarrow> int \<times> ad936x" where
  "get_iio_attr dev ch a out self =
     (attr_value dev (io_trace self) ch a out,
      self\<lparr>io_trace := io_trace self @ [GetAttr ch a out]\<rparr>)"

definition get_iio_attr_str :: "device \<Rightarrow> string \<Rightarrow> string \<Rightarrow> bool \<Rightarrow> ad936x \<Rightarrow> string \<times> ad936x" where
  "get_iio_attr_str dev ch a out self =
     (attr_str dev (io_trace self) ch a out,
      self\<lparr>io_trace := io_trace self @ [GetAttrStr ch a out]\<rparr>)"

definition get_iio_dev_attr_str :: "device \<Rightarrow> string \<Rightarrow> ad936x \<Rightarrow> string \<times> ad936x" where
  "get_iio_dev_attr_str dev a self =
     (dev_attr_str dev (io_trace self) a,
      self\<lparr>io_trace := io_trace self @ [GetDevAttrStr a]\<rparr>)"

definition set_iio_attr :: "string \<Rightarrow> string \<Rightarrow> bool \<Rightarrow> val \<Rightarrow> ad936x \<Rightarrow> ad936x" where
  "set_iio_attr ch a out v self = self\<lparr>io_trace := io_trace self @ [SetAttr ch a out v]\<rparr>"

definition set_iio_attr_float :: "string \<Rightarrow> string \<Rightarrow> bool \<Rightarrow> val \<Rightarrow> ad936x \<Rightarrow> ad936x" where
  "set_iio_attr_float ch a out v self =
     self\<lparr>io_trace := io_trace self @ [SetAttrFloat ch a out v]\<rparr>"

definition set_iio_attr_int :: "string \<Rightarrow> string \<Rightarrow> bool \<Rightarrow> val \<Rightarrow> ad936x \<Rightarrow> ad936x" where
  "set_iio_attr_int ch a out v self =
     self\<lparr>io_trace := io_trace self @ [SetAttrInt ch a out v]\<rparr>"

definition set_iio_dev_attr_str :: "string \<Rightarrow> string \<Rightarrow> ad936x \<Rightarrow> ad936x" where
  "set_iio_dev_attr_str a v self = self\<lparr>io_trace := io_trace self @ [SetDevAttrStr a v]\<rparr>"

definition rx_buffered_data :: "device \<Rightarrow> ad936x \<Rightarrow> real list \<times> ad936x" where
  "rx_buffered_data dev self =
     (buffered_data dev (io_trace self),
      self\<lparr>io_trace := io_trace self @ [RxBufferedData]\<rparr>)"

subsection \<open>Gain, bandwidth and local-oscillator setters (lines 60 to 106, 204 to 220)\<close>

definition gain_control_mode :: "device \<Rightarrow> ad936x \<Rightarrow> string \<times> ad936x" where
  "gain_control_mode dev self = get_iio_attr_str dev ''voltage0'' ''gain_control_mode'' False self"

definition gain_control_mode_setter :: "val \<Rightarrow> ad936x \<Rightarrow> ad936x" where
  "gain_control_mode_setter v self = set_iio_attr ''voltage0'' ''gain_control_mode'' False v self"

definition rx_hardwaregain_setter :: "device \<Rightarrow> val \<Rightarrow> ad936x \<Rightarrow> ad936x" where
  "rx_hardwaregain_setter dev v self =
     (let (mode, self1) = gain_control_mode dev self
      in if mode = ''manual''
         then set_iio_attr_float ''voltage0'' ''hardwaregain'' False v self1
         else self1)"

definition tx_hardwaregain_setter :: "val \<Rightarrow> ad936x \<Rightarrow> ad936x" where
  "tx_hardwaregain_setter v self = set_iio_attr_float ''voltage0'' ''hardwaregain'' True v self"

definition rx_rf_bandwidth_setter :: "val \<Rightarrow> ad936x \<Rightarrow> ad936x" where
  "rx_rf_bandwidth_setter v self = set_iio_attr_int ''voltage0'' ''rf_bandwidth'' False v self"

definition tx_rf_bandwidth_setter :: "val \<Rightarrow> ad936x \<Rightarrow> ad936x" where
  "tx_rf_bandwidth_setter v self = set_iio_attr_int ''voltage0'' ''rf_bandwidth'' True v self"

definition rx_lo_setter :: "val \<Rightarrow> ad936x \<Rightarrow> ad936x" where
  "rx_lo_setter v self = set_iio_attr_int ''altvoltage0'' ''frequency'' True v self"

definition tx_lo_setter :: "val \<Rightarrow> ad936x \<Rightarrow> ad936x" where
  "tx_lo_setter v self = set_iio_attr_int ''altvoltage1'' ''frequency'' True v self"

subsection \<open>The sample-rate setter (lines 113 to 202)\<close>

text \<open>
  Lines 183 to 188: the two header lines, then the loop over \<^verbatim>\<open>range(taps)\<close>
  that appends one line per coefficient, then the closing line feed.
  \<^verbatim>\<open>fir[i]\<close> raises \<^verbatim>\<open>IndexError\<close> beyond the list.
\<close>

fun fir_lines :: "int list \<Rightarrow> nat list \<Rightarrow> string \<Rightarrow> error + string" where
  "fir_lines cs [] acc = Inr acc"
| "fir_lines cs (i # is) acc =
     (if i < length cs
      then fir_lines cs is (acc @ str_int (cs ! i) @ '','' @ str_int (cs ! i) @ NL)
      else Inl IndexError)"

definition fir_config_string :: "profile \<Rightarrow> error + string" where
  "fir_config_string p =
     (case fir_lines (fir p) [0..<nat (taps p)]
             (''RX 3 GAIN -6 DEC '' @ str_int (dec p) @ NL @
              ''TX 3 GAIN 0 INT '' @ str_int (dec p) @ NL) of
        Inl e \<Rightarrow> Inl e
      | Inr s \<Rightarrow> Inr (s @ NL))"

text \<open>
  Lines 175 to 189: the two reads, the disabling of a filter that is on (after
  the bootstrap rate when the current rate is low), and the write of the
  configuration string.
\<close>

definition fir_program :: "device \<Rightarrow> profile \<Rightarrow> ad936x \<Rightarrow> (error + unit) \<times> ad936x" where
  "fir_program dev p self =
     (let (current_rate, self1) = get_iio_attr dev ''voltage0'' ''sampling_frequency'' False self;
          (fir_en, self2) = get_iio_attr dev ''out'' ''voltage_filter_fir_en'' False self1;
          self3 =
            (if fir_en \<noteq> 0 then
               set_iio_attr ''out'' ''voltage_filter_fir_en'' False (IntV 0)
                 (if current_rate \<le> 25000000 div 12
                  then set_iio_attr ''voltage0'' ''sampling_frequency'' False (IntV 3000000) self2
                  else self2)
             else self2)
      in case fir_config_string p of
           Inl e \<Rightarrow> (Inl e, self3)
         | Inr config \<Rightarrow>
             (Inr (), set_iio_dev_attr_str ''filter_fir_config'' config self3))"

text \<open>
  Lines 193 to 195: \<^verbatim>\<open>int(readbuf.split(" ")[k].split(":")[1])\<close> for the token
  \<open>k\<close>, and the quotient of the two rates, floored, times 16.
\<close>

definition path_rate :: "string \<Rightarrow> nat \<Rightarrow> error + int" where
  "path_rate readbuf k =
     (case index (split CHR '' '' readbuf) k of
        Inl e \<Rightarrow> Inl e
      | Inr token \<Rightarrow>
          (case index (split CHR '':'' token) 1 of
             Inl e \<Rightarrow> Inl e
           | Inr field \<Rightarrow> py_int field))"

definition max_rate :: "string \<Rightarrow> error + int" where
  "max_rate readbuf =
     (case path_rate readbuf 1 of
        Inl e \<Rightarrow> Inl e
      | Inr dacrate \<Rightarrow>
          (case path_rate readbuf 5 of
             Inl e \<Rightarrow> Inl e
           | Inr txrate \<Rightarrow>
               (if txrate = 0 then Inl ZeroDivisionError
                else Inr ((dacrate div txrate) * 16))))"

text \<open>
  Lines 196 to 199, with the value of \<^verbatim>\<open>max_rate\<close> at hand: the bootstrap
  write when it is below the tap count, the enabling of the filter, the
  requested rate.
\<close>

definition narrow_commit :: "int \<Rightarrow> int \<Rightarrow> int \<Rightarrow> ad936x \<Rightarrow> ad936x" where
  "narrow_commit m tps rate self =
     set_iio_attr ''voltage0'' ''sampling_frequency'' False (IntV rate)
       (set_iio_attr ''out'' ''voltage_filter_fir_en'' False (IntV 1)
          (if m < tps
           then set_iio_attr ''voltage0'' ''sampling_frequency'' False (IntV 3000000) self
           else self))"

text \<open>Lines 191 to 202.\<close>

definition fir_enable :: "device \<Rightarrow> int \<Rightarrow> int \<Rightarrow> ad936x \<Rightarrow> (error + unit) \<times> ad936x" where
  "fir_enable dev rate tps self =
     (if rate \<le> 25000000 div 12 then
        (let (readbuf, self1) = get_iio_dev_attr_str dev ''tx_path_rates'' self
         in case max_rate readbuf of
              Inl e \<Rightarrow> (Inl e, self1)
            | Inr m \<Rightarrow> (Inr (), narrow_commit m tps rate self1))
      else
        (Inr (),
         set_iio_attr ''out'' ''voltage_filter_fir_en'' False (IntV 1)
           (set_iio_attr ''voltage0'' ''sampling_frequency'' False (IntV rate) self)))"

definition sample_rate_setter :: "device \<Rightarrow> int \<Rightarrow> ad936x \<Rightarrow> (error + unit) \<times> ad936x" where
  "sample_rate_setter dev rate self =
     (if rate < 521000 then (Inl ValueError, self)
      else
        (case fir_program dev (filter_table rate) self of
           (Inl e, self1) \<Rightarrow> (Inl e, self1)
         | (Inr u, self1) \<Rightarrow> fir_enable dev rate (taps (filter_table rate)) self1))"

text \<open>The events a call of the setter adds to the record of accesses.\<close>

definition sample_rate_events :: "device \<Rightarrow> int \<Rightarrow> ad936x \<Rightarrow> io list" where
  "sample_rate_events dev rate self =
     drop (length (io_trace self)) (io_trace (snd (sample_rate_setter dev rate self)))"

subsection \<open>The constructor (lines 222 to 249)\<close>

text \<open>
  What the constructor meets outside the object: the attribute \<^verbatim>\<open>_uri_auto\<close>
  of the base classes, the URIs for which \<^verbatim>\<open>iio.Context\<close> returns a context
  (for the others it raises), and the devices \<^verbatim>\<open>find_device\<close> finds in a
  context. The hooks \<^verbatim>\<open>_rx_init_channels\<close> and \<^verbatim>\<open>_tx_init_channels\<close> are
  abstract here; they are taken to return normally and to leave the attributes
  below alone.
\<close>

record host =
  uri_auto :: string
  context_opens :: "string \<Rightarrow> bool"
  finds_device :: "string \<Rightarrow> string \<Rightarrow> bool"

definition rx_data_device_name :: string where
  "rx_data_device_name = ''cf-ad9361-lpc''"

text \<open>
  An object on which the constructor has not run: only \<^verbatim>\<open>_ctx\<close>, which the
  base classes define, has a value.
\<close>

definition unconstructed :: "string option \<Rightarrow> io list \<Rightarrow> ad936x" where
  "unconstructed c tr =
     \<lparr>ctx = c, uri = None, rxadc = None, rx_buffer_size = None,
      rx_data = None, tx_data = None, io_trace = tr\<rparr>"

definition init :: "host \<Rightarrow> string \<Rightarrow> ad936x \<Rightarrow> error + ad936x" where
  "init h u self =
     (if ctx self \<noteq> None then Inr self
      else
        (let self1 = self\<lparr>uri := Some u\<rparr>;
             opened =
               (if u = [] then
                  (if uri_auto h \<noteq> [] \<and> context_opens h (uri_auto h)
                   then Some (uri_auto h) else None)
                else (if context_opens h u then Some u else None))
         in case opened of
              None \<Rightarrow> Inl (Exception ''No device found'')
            | Some c \<Rightarrow>
                (if \<not> finds_device h c rx_data_device_name
                 then Inl (Exception (''No device found with name '' @ rx_data_device_name))
                 else Inr (self1\<lparr>ctx := Some c,
                                  rxadc := Some rx_data_device_name,
                                  rx_buffer_size := Some 1024,
                                  rx_data := Some (PyList []),
                                  tx_data := Some (PyList [])\<rparr>))))"

subsection \<open>Receiving (lines 255 to 274)\<close>

text \<open>
  \<^verbatim>\<open>range(0, n, 2)\<close>, and the list comprehension of line 268 over it:
  \<^verbatim>\<open>data[i] + 1j * data[i + 1]\<close>, with \<^verbatim>\<open>IndexError\<close> where an index is beyond
  the buffer.
\<close>

definition range2 :: "nat \<Rightarrow> nat list" where
  "range2 n = map (\<lambda>k. 2 * k) [0..<(n + 1) div 2]"

fun pair_up :: "real list \<Rightarrow> nat list \<Rightarrow> error + complex list" where
  "pair_up data [] = Inr []"
| "pair_up data (i # is) =
     (if i + 1 < length data then
        (case pair_up data is of
           Inl e \<Rightarrow> Inl e
         | Inr cs \<Rightarrow> Inr ((complex_of_real (data ! i) + \<i> * complex_of_real (data ! (i + 1))) # cs))
      else Inl IndexError)"

text \<open>
  \<^verbatim>\<open>a == b\<close> on the values at hand: lists compare with lists, numbers
  (booleans count as 0 and 1) with numbers, and a list never equals a number.
\<close>

fun number :: "pyobj \<Rightarrow> complex option" where
  "number (PyList xs) = None"
| "number (PyComplex c) = Some c"
| "number (PyBool b) = Some (if b then 1 else 0)"
| "number (PyInt n) = Some (of_int n)"

definition py_eq :: "pyobj \<Rightarrow> pyobj \<Rightarrow> bool" where
  "py_eq a b =
     (case (a, b) of
        (PyList xs, PyList ys) \<Rightarrow> xs = ys
      | _ \<Rightarrow> (case (number a, number b) of
                (Some x, Some y) \<Rightarrow> x = y
              | _ \<Rightarrow> False))"

text \<open>\<^verbatim>\<open>len(x)\<close>: only the list has a length.\<close>

fun py_len :: "pyobj \<Rightarrow> error + nat" where
  "py_len (PyList xs) = Inr (length xs)"
| "py_len (PyComplex c) = Inl TypeError"
| "py_len (PyBool b) = Inl TypeError"
| "py_len (PyInt n) = Inl TypeError"

text \<open>\<^verbatim>\<open>x[0]\<close>.\<close>

fun py_first :: "pyobj \<Rightarrow> error + pyobj" where
  "py_first (PyList xs) = (case xs of [] \<Rightarrow> Inl IndexError | c # cs \<Rightarrow> Inr (PyComplex c))"
| "py_first (PyComplex c) = Inl TypeError"
| "py_first (PyBool b) = Inl TypeError"
| "py_first (PyInt n) = Inl TypeError"

text \<open>
  \<^verbatim>\<open>rx_only\<close>. Line 271 is \<^verbatim>\<open>if len(self.rx_data == 2):\<close>, that is, the
  length of the result of the comparison.
\<close>

definition rx_only :: "device \<Rightarrow> bool \<Rightarrow> ad936x \<Rightarrow> (error + pyobj) \<times> ad936x" where
  "rx_only dev get self =
     (if get then
        (case rx_data self of
           None \<Rightarrow> (Inl AttributeError, self)
         | Some v \<Rightarrow> (Inr v, self))
      else
        (let (data, self1) = rx_buffered_data dev self
         in if length data mod 2 \<noteq> 0 then
              (Inl (Exception ''Complex data must have an even number of component channels''),
               self1)
            else
              (case pair_up data (range2 (length data)) of
                 Inl e \<Rightarrow> (Inl e, self1)
               | Inr cs \<Rightarrow>
                   (let self2 = self1\<lparr>rx_data := Some (PyList cs)\<rparr>
                    in case py_len (PyBool (py_eq (PyList cs) (PyInt 2))) of
                         Inl e \<Rightarrow> (Inl e, self2)
                       | Inr n \<Rightarrow>
                           (if n \<noteq> 0 then
                              (case py_first (PyList cs) of
                                 Inl e \<Rightarrow> (Inl e, self2)
                               | Inr c \<Rightarrow> (Inr c, self2\<lparr>rx_data := Some c\<rparr>))
                            else (Inr (PyList cs), self2))))))"

subsection \<open>The configuration string as the specification describes it\<close>

text \<open>
  The payload of the specification, line by line: the two header lines, one
  line \<open>c,c\<close> for every coefficient in order, and one empty line. \<open>unlines\<close>
  ends every line with a line feed.
\<close>

definition spec_config_lines :: "profile \<Rightarrow> string list" where
  "spec_config_lines p =
     [''RX 3 GAIN -6 DEC '' @ str_int (dec p), ''TX 3 GAIN 0 INT '' @ str_int (dec p)] @
     map (\<lambda>c. str_int c @ '','' @ str_int c) (fir p) @
     [[]]"

definition unlines :: "string list \<Rightarrow> string" where
  "unlines ls = concat (map (\<lambda>l. l @ NL) ls)"

subsection \<open>Devices and hosts for the examples\<close>

text \<open>
  A device that always gives the same answers: \<open>cur\<close> for the sampling
  frequency, \<open>en\<close> for every other numeric attribute, \<open>mode\<close> for a string
  attribute of a channel, \<open>rates\<close> for a string attribute of the device, and
  \<open>buf\<close> for the receive buffer. A host where every context opens and holds
  every device.
\<close>

definition steady_device :: "int \<Rightarrow> int \<Rightarrow> string \<Rightarrow> string \<Rightarrow> real list \<Rightarrow> device" where
  "steady_device cur en mode rates buf =
     \<lparr>attr_value = (\<lambda>tr ch a out. if a = ''sampling_frequency'' then cur else en),
      attr_str = (\<lambda>tr ch a out. mode),
      dev_attr_str = (\<lambda>tr a. rates),
      buffered_data = (\<lambda>tr. buf)\<rparr>"

definition open_host :: host where
  "open_host = \<lparr>uri_auto = ''ip:pluto.local'', context_opens = (\<lambda>u. True),
                finds_device = (\<lambda>c n. True)\<rparr>"

section \<open>Properties\<close>

subsection \<open>The filter table\<close>

lemma length_fir_tables:
  "length fir_20M = 128" "length fir_40M = 128" "length fir_53M = 96" "length fir_max = 64"
  by (simp_all add: fir_20M_def fir_40M_def fir_53M_def fir_max_def)

lemma filter_table_length: "int (length (fir (filter_table rate))) = taps (filter_table rate)"
  by (simp add: filter_table_def length_fir_tables)

text \<open>
  C2. For a rate of at least 521,000 the chain selects by the bracket rule:
  up to 20,000,000 decimation 4 with 128 taps, above that up to 40,000,000
  decimation 2 with 128 taps, above that up to 53,333,333 decimation 2 with
  96 taps, above that decimation 2 with 64 taps. Exactly one bracket of the
  specification's table holds the rate, and it is the one selected.
\<close>

theorem filter_table_brackets:
  assumes "521000 \<le> r"
  shows "(r \<le> 20000000 \<longrightarrow> dec (filter_table r) = 4 \<and> taps (filter_table r) = 128) \<and>
         (20000000 < r \<and> r \<le> 40000000 \<longrightarrow>
            dec (filter_table r) = 2 \<and> taps (filter_table r) = 128) \<and>
         (40000000 < r \<and> r \<le> 53333333 \<longrightarrow>
            dec (filter_table r) = 2 \<and> taps (filter_table r) = 96) \<and>
         (53333333 < r \<longrightarrow> dec (filter_table r) = 2 \<and> taps (filter_table r) = 64) \<and>
         spec_brackets r = [(dec (filter_table r), taps (filter_table r))]"
  by (simp add: filter_table_def spec_brackets_def)

theorem filter_table_brackets_witness:
  "dec (filter_table 521000) = 4 \<and> taps (filter_table 20000000) = 128 \<and>
   dec (filter_table 20000001) = 2 \<and> taps (filter_table 40000000) = 128 \<and>
   dec (filter_table 40000001) = 2 \<and> taps (filter_table 53333333) = 96 \<and>
   dec (filter_table 53333334) = 2 \<and> taps (filter_table 53333334) = 64 \<and>
   spec_brackets 30000000 = [(2, 128)]"
  using filter_table_brackets [of 521000] filter_table_brackets [of 20000000]
    filter_table_brackets [of 20000001] filter_table_brackets [of 40000000]
    filter_table_brackets [of 40000001] filter_table_brackets [of 53333333]
    filter_table_brackets [of 53333334] filter_table_brackets [of 30000000]
  by simp

subsection \<open>The floor of the sample rate\<close>

text \<open>
  C3. A rate above 0 and below 521,000 is refused with \<^verbatim>\<open>ValueError\<close> (the
  specification's InvalidParameter): the object and the record of accesses
  come back as they were, so no attribute was read or written.
\<close>

theorem sample_rate_below_floor:
  assumes "0 < r" and "r < 521000"
  shows "sample_rate_setter dev r self = (Inl ValueError, self) \<and>
         sample_rate_events dev r self = []"
  using assms by (simp add: sample_rate_setter_def sample_rate_events_def)

theorem sample_rate_below_floor_witness:
  "(0::int) < 520999 \<and> (520999::int) < 521000 \<and>
   sample_rate_setter (steady_device 30720000 1 ''manual'' [] []) 520999 (unconstructed None [])
     = (Inl ValueError, unconstructed None []) \<and>
   sample_rate_events (steady_device 30720000 1 ''manual'' [] []) 520999 (unconstructed None []) = []"
proof -
  have h1: "(0::int) < 520999" and h2: "(520999::int) < 521000" by simp_all
  from sample_rate_below_floor [OF h1 h2] show ?thesis by simp
qed

subsection \<open>Receiving\<close>

text \<open>
  C8. When the buffer the hook returns has odd length, \<^verbatim>\<open>rx_only\<close> raises the
  exception of line 264 (the specification's DataIntegrityError). Nothing is
  returned, the only change is the recorded fetch, and \<^verbatim>\<open>rx_data\<close> keeps the
  value it had.
\<close>

theorem rx_only_odd_length:
  assumes "odd (length (buffered_data dev (io_trace self)))"
  shows "rx_only dev False self =
           (Inl (Exception ''Complex data must have an even number of component channels''),
            self\<lparr>io_trace := io_trace self @ [RxBufferedData]\<rparr>) \<and>
         rx_data (snd (rx_only dev False self)) = rx_data self"
  using assms by (simp add: rx_only_def rx_buffered_data_def odd_iff_mod_2_eq_one)

theorem rx_only_odd_length_witness:
  "odd (length (buffered_data (steady_device 0 0 [] [] [1, 2, 3]) (io_trace (unconstructed None [])))) \<and>
   rx_only (steady_device 0 0 [] [] [1, 2, 3]) False (unconstructed None []) =
     (Inl (Exception ''Complex data must have an even number of component channels''),
      (unconstructed None [])\<lparr>io_trace := io_trace (unconstructed None []) @ [RxBufferedData]\<rparr>) \<and>
   rx_data (snd (rx_only (steady_device 0 0 [] [] [1, 2, 3]) False (unconstructed None []))) = None"
proof -
  have h: "odd (length (buffered_data (steady_device 0 0 [] [] [1, 2, 3])
                (io_trace (unconstructed None []))))"
    by (simp add: steady_device_def)
  from rx_only_odd_length [OF h] show ?thesis using h by (simp add: unconstructed_def)
qed

text \<open>
  C10, as amended. With \<^verbatim>\<open>get=True\<close> a stored value is returned and the
  object comes back as it was, record of accesses included: no buffer is
  fetched and no attribute touched. After a constructor run that found no
  context set beforehand and did not raise, the stored value is the empty
  list.
\<close>

theorem rx_only_get:
  "(rx_data self = Some v \<longrightarrow> rx_only dev True self = (Inr v, self)) \<and>
   (ctx self0 = None \<and> init h u self0 = Inr self1 \<longrightarrow>
      rx_data self1 = Some (PyList []) \<and> rx_only dev True self1 = (Inr (PyList []), self1))"
  by (auto simp add: rx_only_def init_def Let_def split: option.splits if_splits)

theorem rx_only_get_witness:
  "rx_data ((unconstructed None [])\<lparr>rx_data := Some (PyComplex 1)\<rparr>) = Some (PyComplex 1) \<and>
   rx_only (steady_device 0 0 [] [] [1, 2]) True
      ((unconstructed None [])\<lparr>rx_data := Some (PyComplex 1)\<rparr>) =
     (Inr (PyComplex 1), (unconstructed None [])\<lparr>rx_data := Some (PyComplex 1)\<rparr>) \<and>
   ctx (unconstructed None []) = None \<and>
   init open_host ''ip:192.168.2.1'' (unconstructed None []) =
     Inr \<lparr>ctx = Some ''ip:192.168.2.1'', uri = Some ''ip:192.168.2.1'',
          rxadc = Some ''cf-ad9361-lpc'', rx_buffer_size = Some 1024,
          rx_data = Some (PyList []), tx_data = Some (PyList []), io_trace = []\<rparr> \<and>
   rx_only (steady_device 0 0 [] [] [1, 2]) True
     \<lparr>ctx = Some ''ip:192.168.2.1'', uri = Some ''ip:192.168.2.1'',
      rxadc = Some ''cf-ad9361-lpc'', rx_buffer_size = Some 1024,
      rx_data = Some (PyList []), tx_data = Some (PyList []), io_trace = []\<rparr> =
     (Inr (PyList []),
      \<lparr>ctx = Some ''ip:192.168.2.1'', uri = Some ''ip:192.168.2.1'',
       rxadc = Some ''cf-ad9361-lpc'', rx_buffer_size = Some 1024,
       rx_data = Some (PyList []), tx_data = Some (PyList []), io_trace = []\<rparr>)"
proof -
  have i: "init open_host ''ip:192.168.2.1'' (unconstructed None []) =
     Inr \<lparr>ctx = Some ''ip:192.168.2.1'', uri = Some ''ip:192.168.2.1'',
          rxadc = Some ''cf-ad9361-lpc'', rx_buffer_size = Some 1024,
          rx_data = Some (PyList []), tx_data = Some (PyList []), io_trace = []\<rparr>"
    by (simp add: init_def open_host_def unconstructed_def rx_data_device_name_def)
  have c: "ctx (unconstructed None []) = None" by (simp add: unconstructed_def)
  have d: "rx_data ((unconstructed None [])\<lparr>rx_data := Some (PyComplex 1)\<rparr>) = Some (PyComplex 1)"
    by simp
  from rx_only_get [where self = "(unconstructed None [])\<lparr>rx_data := Some (PyComplex 1)\<rparr>"
      and v = "PyComplex 1" and dev = "steady_device 0 0 [] [] [1, 2]"
      and ?self0.0 = "unconstructed None []" and h = open_host and u = "''ip:192.168.2.1''"
      and ?self1.0 = "\<lparr>ctx = Some ''ip:192.168.2.1'', uri = Some ''ip:192.168.2.1'',
          rxadc = Some ''cf-ad9361-lpc'', rx_buffer_size = Some 1024,
          rx_data = Some (PyList []), tx_data = Some (PyList []), io_trace = []\<rparr>"] c i d
  show ?thesis by simp
qed

text \<open>
  C10 as stated fails. When \<^verbatim>\<open>_ctx\<close> is set before the constructor runs,
  line 224 returns at once: the constructor ends normally and \<^verbatim>\<open>rx_data\<close> has
  no value, so \<^verbatim>\<open>rx_only\<close> with \<^verbatim>\<open>get=True\<close> raises \<^verbatim>\<open>AttributeError\<close> in
  place of returning the empty list.
\<close>

theorem rx_only_get_preset_context:
  "init open_host ''ip:192.168.2.1'' (unconstructed (Some ''ip:192.168.2.1'') []) =
     Inr (unconstructed (Some ''ip:192.168.2.1'') []) \<and>
   rx_data (unconstructed (Some ''ip:192.168.2.1'') []) = None \<and>
   rx_only (steady_device 0 0 [] [] [1, 2]) True (unconstructed (Some ''ip:192.168.2.1'') []) =
     (Inl AttributeError, unconstructed (Some ''ip:192.168.2.1'') [])"
  by (simp add: init_def rx_only_def unconstructed_def)

text \<open>
  The list comprehension of line 268 on a buffer of even length: entry \<open>k\<close>
  of the result has the real part \<open>data[2k]\<close> and the imaginary part
  \<open>data[2k+1]\<close>.
\<close>

lemma pair_up_map:
  "\<forall>k \<in> set ks. 2 * k + 1 < length data \<Longrightarrow>
   pair_up data (map (\<lambda>k. 2 * k) ks) =
     Inr (map (\<lambda>k. Complex (data ! (2 * k)) (data ! (2 * k + 1))) ks)"
  by (induction ks) (simp_all add: complex_eq_iff)

lemma pair_up_even:
  assumes "length data = 2 * n"
  shows "pair_up data (range2 (length data)) =
           Inr (map (\<lambda>k. Complex (data ! (2 * k)) (data ! (2 * k + 1))) [0..<n])"
  using assms by (simp add: range2_def pair_up_map)

text \<open>
  On every buffer of even length the pairs are stored in \<^verbatim>\<open>rx_data\<close>, and
  then line 271 takes the length of a boolean: the call ends in
  \<^verbatim>\<open>TypeError\<close> and returns nothing.
\<close>

lemma rx_only_even_length:
  assumes "length (buffered_data dev (io_trace self)) = 2 * n"
  shows "rx_only dev False self =
           (Inl TypeError,
            self\<lparr>rx_data := Some (PyList (map (\<lambda>k. Complex (buffered_data dev (io_trace self) ! (2 * k))
                                      (buffered_data dev (io_trace self) ! (2 * k + 1))) [0..<n])),
                 io_trace := io_trace self @ [RxBufferedData]\<rparr>)"
  using assms pair_up_even [OF assms]
  by (simp add: rx_only_def rx_buffered_data_def)

text \<open>
  C1. The claim is that a buffer of length \<open>2n\<close> makes \<^verbatim>\<open>rx_only\<close> return the
  \<open>n\<close> pairs. On the buffer \<open>[1, 2, 3, 4]\<close> the code stores the two pairs and
  raises \<^verbatim>\<open>TypeError\<close> at line 271 instead of returning them.
\<close>

theorem rx_only_raises_on_pairs:
  "rx_only (steady_device 0 0 [] [] [1, 2, 3, 4]) False (unconstructed None []) =
     (Inl TypeError,
      (unconstructed None [])\<lparr>rx_data := Some (PyList [Complex 1 2, Complex 3 4]),
                               io_trace := [RxBufferedData]\<rparr>)"
  by (simp add: rx_only_def rx_buffered_data_def steady_device_def unconstructed_def range2_def
      complex_eq_iff)

subsection \<open>Gain, bandwidth and local-oscillator setters\<close>

text \<open>
  C9, as amended. Each of the setters of the gain-control mode, the TX
  hardware gain, the two RF bandwidths and the two local-oscillator
  frequencies makes exactly one write of the value to its attribute and
  nothing else. The setter of the RX hardware gain first reads the
  gain-control mode and writes the value exactly when the mode reads
  \<^verbatim>\<open>manual\<close>; in every other mode it writes nothing.
\<close>

theorem accessor_writes:
  "gain_control_mode_setter v self =
     self\<lparr>io_trace := io_trace self @ [SetAttr ''voltage0'' ''gain_control_mode'' False v]\<rparr> \<and>
   tx_hardwaregain_setter v self =
     self\<lparr>io_trace := io_trace self @ [SetAttrFloat ''voltage0'' ''hardwaregain'' True v]\<rparr> \<and>
   rx_rf_bandwidth_setter v self =
     self\<lparr>io_trace := io_trace self @ [SetAttrInt ''voltage0'' ''rf_bandwidth'' False v]\<rparr> \<and>
   tx_rf_bandwidth_setter v self =
     self\<lparr>io_trace := io_trace self @ [SetAttrInt ''voltage0'' ''rf_bandwidth'' True v]\<rparr> \<and>
   rx_lo_setter v self =
     self\<lparr>io_trace := io_trace self @ [SetAttrInt ''altvoltage0'' ''frequency'' True v]\<rparr> \<and>
   tx_lo_setter v self =
     self\<lparr>io_trace := io_trace self @ [SetAttrInt ''altvoltage1'' ''frequency'' True v]\<rparr> \<and>
   rx_hardwaregain_setter dev v self =
     self\<lparr>io_trace := io_trace self @
       GetAttrStr ''voltage0'' ''gain_control_mode'' False #
       (if attr_str dev (io_trace self) ''voltage0'' ''gain_control_mode'' False = ''manual''
        then [SetAttrFloat ''voltage0'' ''hardwaregain'' False v] else [])\<rparr>"
  by (simp add: gain_control_mode_setter_def tx_hardwaregain_setter_def
      rx_rf_bandwidth_setter_def tx_rf_bandwidth_setter_def rx_lo_setter_def tx_lo_setter_def
      rx_hardwaregain_setter_def gain_control_mode_def get_iio_attr_str_def set_iio_attr_def
      set_iio_attr_float_def set_iio_attr_int_def)

theorem accessor_writes_witness:
  "io_trace (rx_hardwaregain_setter (steady_device 0 0 ''manual'' [] []) (FloatV 30)
      (unconstructed None [])) =
     [GetAttrStr ''voltage0'' ''gain_control_mode'' False,
      SetAttrFloat ''voltage0'' ''hardwaregain'' False (FloatV 30)] \<and>
   io_trace (rx_lo_setter (IntV 2400000000) (unconstructed None [])) =
     [SetAttrInt ''altvoltage0'' ''frequency'' True (IntV 2400000000)]"
  using accessor_writes [of "FloatV 30" "unconstructed None []" "steady_device 0 0 ''manual'' [] []"]
    accessor_writes [of "IntV 2400000000" "unconstructed None []" "steady_device 0 0 ''manual'' [] []"]
  by (simp add: steady_device_def unconstructed_def)

text \<open>
  C9 as stated fails: with the gain-control mode reading \<^verbatim>\<open>slow_attack\<close>,
  setting the RX hardware gain to 30 only reads the mode and writes nothing.
\<close>

theorem rx_hardwaregain_not_manual:
  "io_trace (rx_hardwaregain_setter (steady_device 0 0 ''slow_attack'' [] []) (FloatV 30)
      (unconstructed None [])) =
     [GetAttrStr ''voltage0'' ''gain_control_mode'' False] \<and>
   io_trace (rx_hardwaregain_setter (steady_device 0 0 ''slow_attack'' [] []) (FloatV 30)
      (unconstructed None [])) \<noteq>
     io_trace (unconstructed None []) @ [SetAttrFloat ''voltage0'' ''hardwaregain'' False (FloatV 30)]"
  by (simp add: rx_hardwaregain_setter_def gain_control_mode_def get_iio_attr_str_def
      steady_device_def unconstructed_def)

subsection \<open>The configuration string\<close>

lemma str_nat_digits: "set (str_nat n) \<subseteq> set ''0123456789''"
proof (induction n rule: str_nat.induct)
  case (1 n)
  have d: "''0123456789'' ! k \<in> set ''0123456789''" if "k < 10" for k
    using that nth_mem [of k "''0123456789''"] by simp
  show ?case
  proof (cases "n < 10")
    case True
    then show ?thesis using d [of n] by (subst str_nat.simps) simp
  next
    case False
    have "n mod 10 < 10" by simp
    with 1 False d [of "n mod 10"] show ?thesis by (subst str_nat.simps) simp
  qed
qed

lemma str_int_no_NL: "CHR 0x0A \<notin> set (str_int i)"
  using str_nat_digits [of "nat i"] str_nat_digits [of "nat (- i)"]
  by (auto simp add: str_int_def)

lemma fir_lines_in_range:
  "\<forall>i \<in> set is. i < length cs \<Longrightarrow>
   fir_lines cs is acc =
     Inr (acc @ concat (map (\<lambda>i. str_int (cs ! i) @ '','' @ str_int (cs ! i) @ NL) is))"
  by (induction "is" arbitrary: acc) simp_all

lemma fir_lines_all:
  "fir_lines cs [0..<length cs] acc =
     Inr (acc @ concat (map (\<lambda>c. str_int c @ '','' @ str_int c @ NL) cs))"
proof -
  have "map (\<lambda>i. str_int (cs ! i) @ '','' @ str_int (cs ! i) @ NL) [0..<length cs] =
        map (\<lambda>c. str_int c @ '','' @ str_int c @ NL) (map ((!) cs) [0..<length cs])"
    by simp
  also have "\<dots> = map (\<lambda>c. str_int c @ '','' @ str_int c @ NL) cs"
    by (simp only: map_nth)
  finally show ?thesis by (simp add: fir_lines_in_range)
qed

lemma fir_config_string_full:
  assumes "nat (taps p) = length (fir p)"
  shows "fir_config_string p = Inr (unlines (spec_config_lines p))"
  using assms
  by (simp add: fir_config_string_def fir_lines_all unlines_def spec_config_lines_def
      comp_def)

lemma filter_table_taps: "nat (taps (filter_table r)) = length (fir (filter_table r))"
  using filter_table_length [of r] by linarith

lemma fir_config_string_table:
  "fir_config_string (filter_table r) = Inr (unlines (spec_config_lines (filter_table r)))"
  by (rule fir_config_string_full) (rule filter_table_taps)

lemma low_rate_iff: "(real_of_int r \<le> 25000000 / 12) = (r \<le> 25000000 div 12)"
proof -
  have "(real_of_int r \<le> 25000000 / 12) = (real_of_int (12 * r) \<le> real_of_int 25000000)"
    by (simp add: field_simps)
  also have "\<dots> = (12 * r \<le> 25000000)" by (simp only: of_int_le_iff)
  also have "\<dots> = (r \<le> 25000000 div 12)" by simp presburger
  finally show ?thesis .
qed

lemma fir_program_table:
  "fir_program dev (filter_table r) self =
     (Inr (),
      self\<lparr>io_trace := io_trace self @
        [GetAttr ''voltage0'' ''sampling_frequency'' False,
         GetAttr ''out'' ''voltage_filter_fir_en'' False] @
        (if attr_value dev (io_trace self @ [GetAttr ''voltage0'' ''sampling_frequency'' False])
              ''out'' ''voltage_filter_fir_en'' False \<noteq> 0
         then (if attr_value dev (io_trace self) ''voltage0'' ''sampling_frequency'' False
                    \<le> 25000000 div 12
               then [SetAttr ''voltage0'' ''sampling_frequency'' False (IntV 3000000)] else []) @
              [SetAttr ''out'' ''voltage_filter_fir_en'' False (IntV 0)]
         else []) @
        [SetDevAttrStr ''filter_fir_config'' (unlines (spec_config_lines (filter_table r)))]\<rparr>)"
  by (simp add: fir_program_def fir_config_string_table get_iio_attr_def set_iio_attr_def
      set_iio_dev_attr_str_def)

subsection \<open>Enabling the filter and committing the rate\<close>

text \<open>
  \<^verbatim>\<open>int\<close> at the edges of its white space and of its bound on digits: the
  separator 0x1C is no white space, 0xA0 and 0x85 are, and a token of more
  than 4300 digits is refused.
\<close>

lemma py_int_separator: "py_int ([CHR 0x1C] @ ''128'') = Inl ValueError"
  by (simp add: py_int_def strip_def is_space_def int_unsigned_def digit_val_def)

lemma py_int_no_break_space: "py_int ([CHR 0xA0] @ ''128'' @ [CHR 0x85]) = Inr 128"
  by (simp add: py_int_def strip_def is_space_def int_unsigned_def digit_val_def
      digit_count_def int_max_str_digits_def)

lemma int_unsigned_digit_limit: "4300 < digit_count s \<Longrightarrow> int_unsigned s = None"
  by (cases s) (simp_all add: int_unsigned_def int_max_str_digits_def split: option.splits)

lemma max_rate_separator:
  "max_rate (''x DAC:'' @ [CHR 0x1C] @ ''128 x x x TX:16'') = Inl ValueError"
  by (simp add: max_rate_def path_rate_def index_def py_int_def strip_def is_space_def
      int_unsigned_def digit_val_def)

lemma max_rate_tokens:
  assumes "path_rate readbuf 1 = Inr dacrate" and "path_rate readbuf 5 = Inr txrate"
    and "txrate \<noteq> 0"
  shows "max_rate readbuf = Inr ((dacrate div txrate) * 16)"
  using assms by (simp add: max_rate_def)

lemma fir_enable_low:
  assumes "r \<le> 25000000 div 12"
    and "max_rate (dev_attr_str dev (io_trace s) ''tx_path_rates'') = Inr m"
  shows "fir_enable dev r t s =
           (Inr (),
            s\<lparr>io_trace := io_trace s @
               [GetDevAttrStr ''tx_path_rates''] @
               (if m < t then [SetAttr ''voltage0'' ''sampling_frequency'' False (IntV 3000000)]
                else []) @
               [SetAttr ''out'' ''voltage_filter_fir_en'' False (IntV 1),
                SetAttr ''voltage0'' ''sampling_frequency'' False (IntV r)]\<rparr>)"
  using assms
  by (simp add: fir_enable_def get_iio_dev_attr_str_def narrow_commit_def set_iio_attr_def)

lemma fir_enable_low_error:
  assumes "r \<le> 25000000 div 12"
    and "max_rate (dev_attr_str dev (io_trace s) ''tx_path_rates'') = Inl e"
  shows "fir_enable dev r t s =
           (Inl e, s\<lparr>io_trace := io_trace s @ [GetDevAttrStr ''tx_path_rates'']\<rparr>)"
  using assms by (simp add: fir_enable_def get_iio_dev_attr_str_def)

lemma fir_enable_high:
  assumes "\<not> r \<le> 25000000 div 12"
  shows "fir_enable dev r t s =
           (Inr (),
            s\<lparr>io_trace := io_trace s @
               [SetAttr ''voltage0'' ''sampling_frequency'' False (IntV r),
                SetAttr ''out'' ''voltage_filter_fir_en'' False (IntV 1)]\<rparr>)"
  using assms by (simp add: fir_enable_def set_iio_attr_def)

lemma sample_rate_setter_valid:
  assumes "521000 \<le> r"
  shows "sample_rate_setter dev r self =
           fir_enable dev r (taps (filter_table r)) (snd (fir_program dev (filter_table r) self))"
  using assms by (simp add: sample_rate_setter_def fir_program_table)

lemma fir_program_last:
  "io_trace (snd (fir_program dev (filter_table r) self)) \<noteq> [] \<and>
   last (io_trace (snd (fir_program dev (filter_table r) self))) =
     SetDevAttrStr ''filter_fir_config'' (unlines (spec_config_lines (filter_table r)))"
  by (simp add: fir_program_table)

lemma floor_quotient_agrees:
  assumes "txrate \<noteq> (0::int)"
  shows "((dacrate div txrate) * 16 < 128) =
         (real_of_int dacrate / real_of_int txrate * 16 < 128)"
proof -
  have scale: "(x < 8) = (x * 16 < 128)" for x :: real by auto
  have "((dacrate div txrate) * 16 < 128) = (dacrate div txrate < 8)" by linarith
  also have "\<dots> = (\<lfloor>real_of_int dacrate / real_of_int txrate\<rfloor> < 8)"
    by (simp only: floor_divide_of_int_eq)
  also have "\<dots> = (real_of_int dacrate / real_of_int txrate < 8)"
    by (simp add: floor_less_iff)
  also have "\<dots> = (real_of_int dacrate / real_of_int txrate * 16 < 128)" by (rule scale)
  finally show ?thesis .
qed

text \<open>
  C4. For a rate of at least 521,000 the configuration is written without
  error, and the write of the configuration string is the last access so far.
  From there: when the rate is at most 25,000,000/12 and the string read from
  \<^verbatim>\<open>tx_path_rates\<close> holds the DAC rate in its token 1 and a TX rate other than
  zero in its token 5, the setter reads that string, writes the bootstrap rate
  3,000,000 exactly when the floored quotient of the two rates times 16 is
  below the tap count, then enables the filter, then writes the requested
  rate, and returns normally. There the floored quotient is below the tap
  count exactly when the unrounded one is. When the rate is above
  25,000,000/12 the setter writes the requested rate and then enables the
  filter.
\<close>

theorem fir_enable_order:
  assumes "521000 \<le> r"
  shows "fst (fir_program dev (filter_table r) self) = Inr () \<and>
         last (io_trace (snd (fir_program dev (filter_table r) self))) =
           SetDevAttrStr ''filter_fir_config'' (unlines (spec_config_lines (filter_table r))) \<and>
         (real_of_int r \<le> 25000000 / 12 \<longrightarrow>
            (\<forall>dacrate txrate.
               path_rate (dev_attr_str dev (io_trace (snd (fir_program dev (filter_table r) self)))
                            ''tx_path_rates'') 1 = Inr dacrate \<and>
               path_rate (dev_attr_str dev (io_trace (snd (fir_program dev (filter_table r) self)))
                            ''tx_path_rates'') 5 = Inr txrate \<and>
               txrate \<noteq> 0 \<longrightarrow>
               sample_rate_setter dev r self =
                 (Inr (),
                  (snd (fir_program dev (filter_table r) self))
                    \<lparr>io_trace := io_trace (snd (fir_program dev (filter_table r) self)) @
                       [GetDevAttrStr ''tx_path_rates''] @
                       (if (dacrate div txrate) * 16 < taps (filter_table r)
                        then [SetAttr ''voltage0'' ''sampling_frequency'' False (IntV 3000000)]
                        else []) @
                       [SetAttr ''out'' ''voltage_filter_fir_en'' False (IntV 1),
                        SetAttr ''voltage0'' ''sampling_frequency'' False (IntV r)]\<rparr>) \<and>
               ((dacrate div txrate) * 16 < taps (filter_table r)) =
                 (real_of_int dacrate / real_of_int txrate * 16
                    < real_of_int (taps (filter_table r))))) \<and>
         (\<not> real_of_int r \<le> 25000000 / 12 \<longrightarrow>
            sample_rate_setter dev r self =
              (Inr (),
               (snd (fir_program dev (filter_table r) self))
                 \<lparr>io_trace := io_trace (snd (fir_program dev (filter_table r) self)) @
                    [SetAttr ''voltage0'' ''sampling_frequency'' False (IntV r),
                     SetAttr ''out'' ''voltage_filter_fir_en'' False (IntV 1)]\<rparr>))"
proof (intro conjI impI allI)
  show "fst (fir_program dev (filter_table r) self) = Inr ()"
    by (simp add: fir_program_table)
  show "last (io_trace (snd (fir_program dev (filter_table r) self))) =
          SetDevAttrStr ''filter_fir_config'' (unlines (spec_config_lines (filter_table r)))"
    using fir_program_last by blast
next
  fix dacrate txrate
  let ?s = "snd (fir_program dev (filter_table r) self)"
  let ?rb = "dev_attr_str dev (io_trace ?s) ''tx_path_rates''"
  assume low: "real_of_int r \<le> 25000000 / 12"
    and tok: "path_rate ?rb 1 = Inr dacrate \<and> path_rate ?rb 5 = Inr txrate \<and> txrate \<noteq> 0"
  from low have l: "r \<le> 25000000 div 12" using low_rate_iff [of r] by blast
  from tok have m: "max_rate ?rb = Inr ((dacrate div txrate) * 16)"
    by (simp add: max_rate_tokens)
  show "sample_rate_setter dev r self =
          (Inr (),
           ?s\<lparr>io_trace := io_trace ?s @
               [GetDevAttrStr ''tx_path_rates''] @
               (if (dacrate div txrate) * 16 < taps (filter_table r)
                then [SetAttr ''voltage0'' ''sampling_frequency'' False (IntV 3000000)]
                else []) @
               [SetAttr ''out'' ''voltage_filter_fir_en'' False (IntV 1),
                SetAttr ''voltage0'' ''sampling_frequency'' False (IntV r)]\<rparr>)"
    by (simp only: sample_rate_setter_valid [OF assms] fir_enable_low [OF l m])
  from l have "taps (filter_table r) = 128" by (simp add: filter_table_def)
  with tok floor_quotient_agrees [of txrate dacrate]
  show "((dacrate div txrate) * 16 < taps (filter_table r)) =
          (real_of_int dacrate / real_of_int txrate * 16 < real_of_int (taps (filter_table r)))"
    by simp
next
  let ?s = "snd (fir_program dev (filter_table r) self)"
  assume "\<not> real_of_int r \<le> 25000000 / 12"
  then have h: "\<not> r \<le> 25000000 div 12" using low_rate_iff [of r] by blast
  show "sample_rate_setter dev r self =
          (Inr (),
           ?s\<lparr>io_trace := io_trace ?s @
               [SetAttr ''voltage0'' ''sampling_frequency'' False (IntV r),
                SetAttr ''out'' ''voltage_filter_fir_en'' False (IntV 1)]\<rparr>)"
    by (simp only: sample_rate_setter_valid [OF assms] fir_enable_high [OF h])
qed


lemma example_rates_low:
  "path_rate ''BBPLL:896000000 DAC:56000000 T2:28000000 T1:14000000 TF:8000000 TXSAMP:8000000'' 1
     = Inr 56000000"
  "path_rate ''BBPLL:896000000 DAC:56000000 T2:28000000 T1:14000000 TF:8000000 TXSAMP:8000000'' 5
     = Inr 8000000"
  by (simp_all add: path_rate_def index_def py_int_def strip_def is_space_def int_unsigned_def
      digit_val_def digit_count_def int_max_str_digits_def)

theorem fir_enable_order_witness:
  "521000 \<le> (1000000::int) \<and> real_of_int 1000000 \<le> 25000000 / 12 \<and>
   path_rate ''BBPLL:896000000 DAC:56000000 T2:28000000 T1:14000000 TF:8000000 TXSAMP:8000000'' 1
     = Inr 56000000 \<and>
   path_rate ''BBPLL:896000000 DAC:56000000 T2:28000000 T1:14000000 TF:8000000 TXSAMP:8000000'' 5
     = Inr 8000000 \<and>
   (8000000::int) \<noteq> 0 \<and>
   sample_rate_events
     (steady_device 30720000 0 []
        ''BBPLL:896000000 DAC:56000000 T2:28000000 T1:14000000 TF:8000000 TXSAMP:8000000'' [])
     1000000 (unconstructed None []) =
     [GetAttr ''voltage0'' ''sampling_frequency'' False,
      GetAttr ''out'' ''voltage_filter_fir_en'' False,
      SetDevAttrStr ''filter_fir_config'' (unlines (spec_config_lines (filter_table 1000000))),
      GetDevAttrStr ''tx_path_rates'',
      SetAttr ''voltage0'' ''sampling_frequency'' False (IntV 3000000),
      SetAttr ''out'' ''voltage_filter_fir_en'' False (IntV 1),
      SetAttr ''voltage0'' ''sampling_frequency'' False (IntV 1000000)] \<and>
   521000 \<le> (30000000::int) \<and> \<not> real_of_int 30000000 \<le> 25000000 / 12 \<and>
   sample_rate_events (steady_device 30720000 0 [] [] []) 30000000 (unconstructed None []) =
     [GetAttr ''voltage0'' ''sampling_frequency'' False,
      GetAttr ''out'' ''voltage_filter_fir_en'' False,
      SetDevAttrStr ''filter_fir_config'' (unlines (spec_config_lines (filter_table 30000000))),
      SetAttr ''voltage0'' ''sampling_frequency'' False (IntV 30000000),
      SetAttr ''out'' ''voltage_filter_fir_en'' False (IntV 1)]"
proof -
  let ?rb = "''BBPLL:896000000 DAC:56000000 T2:28000000 T1:14000000 TF:8000000 TXSAMP:8000000''"
  let ?low = "steady_device 30720000 0 [] ?rb []"
  let ?high = "steady_device 30720000 0 [] [] []"
  have v1: "521000 \<le> (1000000::int)" and v2: "521000 \<le> (30000000::int)" by simp_all
  have l1: "real_of_int 1000000 \<le> 25000000 / 12"
    and l2: "\<not> real_of_int 30000000 \<le> 25000000 / 12" by simp_all
  have rb: "dev_attr_str ?low tr ''tx_path_rates'' = ?rb" for tr
    by (simp add: steady_device_def)
  have t: "taps (filter_table 1000000) = 128" by (simp add: filter_table_def)
  from fir_enable_order [OF v1, of ?low "unconstructed None []"] l1
  have "sample_rate_setter ?low 1000000 (unconstructed None []) =
          (Inr (),
           (snd (fir_program ?low (filter_table 1000000) (unconstructed None [])))
             \<lparr>io_trace := io_trace (snd (fir_program ?low (filter_table 1000000) (unconstructed None []))) @
                [GetDevAttrStr ''tx_path_rates'',
                 SetAttr ''voltage0'' ''sampling_frequency'' False (IntV 3000000),
                 SetAttr ''out'' ''voltage_filter_fir_en'' False (IntV 1),
                 SetAttr ''voltage0'' ''sampling_frequency'' False (IntV 1000000)]\<rparr>)"
    by (simp add: rb example_rates_low t del: One_nat_def)
  then have e1: "sample_rate_events ?low 1000000 (unconstructed None []) =
     [GetAttr ''voltage0'' ''sampling_frequency'' False,
      GetAttr ''out'' ''voltage_filter_fir_en'' False,
      SetDevAttrStr ''filter_fir_config'' (unlines (spec_config_lines (filter_table 1000000))),
      GetDevAttrStr ''tx_path_rates'',
      SetAttr ''voltage0'' ''sampling_frequency'' False (IntV 3000000),
      SetAttr ''out'' ''voltage_filter_fir_en'' False (IntV 1),
      SetAttr ''voltage0'' ''sampling_frequency'' False (IntV 1000000)]"
    by (simp add: sample_rate_events_def fir_program_table steady_device_def unconstructed_def)
  from fir_enable_order [OF v2, of ?high "unconstructed None []"] l2
  have "sample_rate_setter ?high 30000000 (unconstructed None []) =
          (Inr (),
           (snd (fir_program ?high (filter_table 30000000) (unconstructed None [])))
             \<lparr>io_trace := io_trace (snd (fir_program ?high (filter_table 30000000) (unconstructed None []))) @
                [SetAttr ''voltage0'' ''sampling_frequency'' False (IntV 30000000),
                 SetAttr ''out'' ''voltage_filter_fir_en'' False (IntV 1)]\<rparr>)"
    by blast
  then have e2: "sample_rate_events ?high 30000000 (unconstructed None []) =
     [GetAttr ''voltage0'' ''sampling_frequency'' False,
      GetAttr ''out'' ''voltage_filter_fir_en'' False,
      SetDevAttrStr ''filter_fir_config'' (unlines (spec_config_lines (filter_table 30000000))),
      SetAttr ''voltage0'' ''sampling_frequency'' False (IntV 30000000),
      SetAttr ''out'' ''voltage_filter_fir_en'' False (IntV 1)]"
    by (simp add: sample_rate_events_def fir_program_table steady_device_def unconstructed_def)
  from v1 v2 l1 l2 e1 e2 example_rates_low show ?thesis by simp
qed

subsection \<open>Disabling the filter\<close>

text \<open>
  The events of a call with a valid rate: the two reads, the disabling of a
  filter that is on, the write of the configuration string, and a tail that
  holds nothing but the read of \<^verbatim>\<open>tx_path_rates\<close>, the bootstrap write, the
  enabling of the filter and the write of the requested rate.
\<close>

lemma sample_rate_events_tail:
  assumes "sample_rate_setter dev r self =
             (res, (snd (fir_program dev (filter_table r) self))
                \<lparr>io_trace := io_trace (snd (fir_program dev (filter_table r) self)) @ tail\<rparr>)"
  shows "sample_rate_events dev r self =
           [GetAttr ''voltage0'' ''sampling_frequency'' False,
            GetAttr ''out'' ''voltage_filter_fir_en'' False] @
           (if attr_value dev (io_trace self @ [GetAttr ''voltage0'' ''sampling_frequency'' False])
                 ''out'' ''voltage_filter_fir_en'' False \<noteq> 0
            then (if attr_value dev (io_trace self) ''voltage0'' ''sampling_frequency'' False
                       \<le> 25000000 div 12
                  then [SetAttr ''voltage0'' ''sampling_frequency'' False (IntV 3000000)] else []) @
                 [SetAttr ''out'' ''voltage_filter_fir_en'' False (IntV 0)]
            else []) @
           [SetDevAttrStr ''filter_fir_config'' (unlines (spec_config_lines (filter_table r)))] @
           tail"
  by (simp add: sample_rate_events_def assms fir_program_table)

lemma sample_rate_events_shape:
  assumes "521000 \<le> r"
  shows "\<exists>tail.
           sample_rate_events dev r self =
             [GetAttr ''voltage0'' ''sampling_frequency'' False,
              GetAttr ''out'' ''voltage_filter_fir_en'' False] @
             (if attr_value dev (io_trace self @ [GetAttr ''voltage0'' ''sampling_frequency'' False])
                   ''out'' ''voltage_filter_fir_en'' False \<noteq> 0
              then (if attr_value dev (io_trace self) ''voltage0'' ''sampling_frequency'' False
                         \<le> 25000000 div 12
                    then [SetAttr ''voltage0'' ''sampling_frequency'' False (IntV 3000000)] else []) @
                   [SetAttr ''out'' ''voltage_filter_fir_en'' False (IntV 0)]
              else []) @
             [SetDevAttrStr ''filter_fir_config'' (unlines (spec_config_lines (filter_table r)))] @
             tail \<and>
           set tail \<subseteq> {GetDevAttrStr ''tx_path_rates'',
                         SetAttr ''voltage0'' ''sampling_frequency'' False (IntV 3000000),
                         SetAttr ''out'' ''voltage_filter_fir_en'' False (IntV 1),
                         SetAttr ''voltage0'' ''sampling_frequency'' False (IntV r)}"
proof -
  let ?s = "snd (fir_program dev (filter_table r) self)"
  let ?t = "taps (filter_table r)"
  show ?thesis
  proof (cases "r \<le> 25000000 div 12")
    case False
    from sample_rate_events_tail [OF trans [OF sample_rate_setter_valid [OF assms] fir_enable_high [OF False]]]
    show ?thesis by (intro exI conjI, assumption) simp
  next
    case True
    show ?thesis
    proof (cases "max_rate (dev_attr_str dev (io_trace ?s) ''tx_path_rates'')")
      case (Inl e)
      from sample_rate_events_tail [OF trans [OF sample_rate_setter_valid [OF assms] fir_enable_low_error [OF True Inl]]]
      show ?thesis by (intro exI conjI, assumption) simp
    next
      case (Inr m)
      from sample_rate_events_tail [OF trans [OF sample_rate_setter_valid [OF assms] fir_enable_low [OF True Inr]]]
      show ?thesis by (intro exI conjI, assumption) auto
    qed
  qed
qed

text \<open>
  Two facts on lists: an event that does not occur is never unguarded, and an
  event that occurs once, right after its guard, is guarded.
\<close>

lemma guarded_absent:
  assumes "d \<notin> set ev"
  shows "\<forall>i < length ev. ev ! i = d \<longrightarrow> 0 < i \<and> ev ! (i - 1) = b"
  using assms nth_mem by metis

lemma guarded_once:
  assumes "d \<notin> set xs" and "d \<notin> set ys" and "b \<noteq> d"
  shows "\<forall>i < length (xs @ [b, d] @ ys).
           (xs @ [b, d] @ ys) ! i = d \<longrightarrow> 0 < i \<and> (xs @ [b, d] @ ys) ! (i - 1) = b"
proof (intro allI impI)
  fix i
  assume i: "i < length (xs @ [b, d] @ ys)" and at: "(xs @ [b, d] @ ys) ! i = d"
  consider "i < length xs" | "i = length xs" | "i = Suc (length xs)" | "Suc (length xs) < i"
    by linarith
  then show "0 < i \<and> (xs @ [b, d] @ ys) ! (i - 1) = b"
  proof cases
    case 1
    then have "(xs @ [b, d] @ ys) ! i \<in> set xs" by (simp add: nth_append)
    with at assms(1) show ?thesis by simp
  next
    case 2
    then have "(xs @ [b, d] @ ys) ! i = b" by (simp add: nth_append)
    with at assms(3) show ?thesis by simp
  next
    case 3
    then show ?thesis by (simp add: nth_append)
  next
    case 4
    then obtain j where j: "i = length xs + 2 + j" using less_iff_Suc_add by auto
    with i have "j < length ys" by simp
    then have "ys ! j \<in> set ys" by simp
    moreover from j have "(xs @ [b, d] @ ys) ! i = ys ! j"
      by (simp add: nth_append)
    ultimately show ?thesis using at assms(2) by simp
  qed
qed

text \<open>
  C5. Let the sampling frequency read at the start of the call be at most
  25,000,000/12. When the rate is valid and the filter flag reads as set, the
  call starts with the two reads, then the write of the bootstrap rate
  3,000,000, then the write that disables the filter. And in every call,
  whatever the rate and the flag, each write that disables the filter comes
  right after a write of the bootstrap rate.
\<close>

theorem bootstrap_before_disable:
  assumes "real_of_int (attr_value dev (io_trace self) ''voltage0'' ''sampling_frequency'' False)
             \<le> 25000000 / 12"
  shows "(521000 \<le> r \<and>
          attr_value dev (io_trace self @ [GetAttr ''voltage0'' ''sampling_frequency'' False])
            ''out'' ''voltage_filter_fir_en'' False \<noteq> 0 \<longrightarrow>
            take 4 (sample_rate_events dev r self) =
              [GetAttr ''voltage0'' ''sampling_frequency'' False,
               GetAttr ''out'' ''voltage_filter_fir_en'' False,
               SetAttr ''voltage0'' ''sampling_frequency'' False (IntV 3000000),
               SetAttr ''out'' ''voltage_filter_fir_en'' False (IntV 0)]) \<and>
         (\<forall>i < length (sample_rate_events dev r self).
            sample_rate_events dev r self ! i =
              SetAttr ''out'' ''voltage_filter_fir_en'' False (IntV 0) \<longrightarrow>
            0 < i \<and>
            sample_rate_events dev r self ! (i - 1) =
              SetAttr ''voltage0'' ''sampling_frequency'' False (IntV 3000000))"
proof -
  let ?B = "SetAttr ''voltage0'' ''sampling_frequency'' False (IntV 3000000)"
  let ?D = "SetAttr ''out'' ''voltage_filter_fir_en'' False (IntV 0)"
  let ?G1 = "GetAttr ''voltage0'' ''sampling_frequency'' False"
  let ?G2 = "GetAttr ''out'' ''voltage_filter_fir_en'' False"
  let ?en = "attr_value dev (io_trace self @ [?G1]) ''out'' ''voltage_filter_fir_en'' False"
  let ?ev = "sample_rate_events dev r self"
  from assms have low: "attr_value dev (io_trace self) ''voltage0'' ''sampling_frequency'' False
                          \<le> 25000000 div 12"
    using low_rate_iff by blast
  have first: "take 4 ?ev = [?G1, ?G2, ?B, ?D]" if "521000 \<le> r" and "?en \<noteq> 0"
  proof -
    from sample_rate_events_shape [OF that(1), of dev self] obtain tail where
      "?ev = [?G1, ?G2] @ (if ?en \<noteq> 0 then (if attr_value dev (io_trace self) ''voltage0''
                 ''sampling_frequency'' False \<le> 25000000 div 12 then [?B] else []) @ [?D] else []) @
             [SetDevAttrStr ''filter_fir_config'' (unlines (spec_config_lines (filter_table r)))] @ tail"
      by blast
    with that(2) low show ?thesis by simp
  qed
  have every: "\<forall>i < length ?ev. ?ev ! i = ?D \<longrightarrow> 0 < i \<and> ?ev ! (i - 1) = ?B"
  proof (cases "521000 \<le> r")
    case False
    then have "?ev = []" by (simp add: sample_rate_events_def sample_rate_setter_def)
    then show ?thesis by simp
  next
    case True
    from sample_rate_events_shape [OF True, of dev self] obtain tail where
      ev: "?ev = [?G1, ?G2] @ (if ?en \<noteq> 0 then (if attr_value dev (io_trace self) ''voltage0''
                 ''sampling_frequency'' False \<le> 25000000 div 12 then [?B] else []) @ [?D] else []) @
             [SetDevAttrStr ''filter_fir_config'' (unlines (spec_config_lines (filter_table r)))] @ tail"
      and tail: "set tail \<subseteq> {GetDevAttrStr ''tx_path_rates'', ?B,
                   SetAttr ''out'' ''voltage_filter_fir_en'' False (IntV 1),
                   SetAttr ''voltage0'' ''sampling_frequency'' False (IntV r)}"
      by blast
    from tail have nt: "?D \<notin> set tail" by auto
    show ?thesis
    proof (cases "?en \<noteq> 0")
      case False
      with ev nt have "?D \<notin> set ?ev" by simp
      then show ?thesis by (rule guarded_absent)
    next
      case True
      let ?ys = "SetDevAttrStr ''filter_fir_config'' (unlines (spec_config_lines (filter_table r))) # tail"
      from True ev low have e: "?ev = [?G1, ?G2] @ [?B, ?D] @ ?ys" by simp
      have "\<forall>i < length ([?G1, ?G2] @ [?B, ?D] @ ?ys).
              ([?G1, ?G2] @ [?B, ?D] @ ?ys) ! i = ?D \<longrightarrow>
              0 < i \<and> ([?G1, ?G2] @ [?B, ?D] @ ?ys) ! (i - 1) = ?B"
        using nt by (intro guarded_once) simp_all
      with e show ?thesis by simp
    qed
  qed
  from first every show ?thesis by blast
qed

theorem bootstrap_before_disable_witness:
  "real_of_int (attr_value (steady_device 1000000 1 [] [] []) (io_trace (unconstructed None []))
                  ''voltage0'' ''sampling_frequency'' False) \<le> 25000000 / 12 \<and>
   521000 \<le> (30000000::int) \<and>
   attr_value (steady_device 1000000 1 [] [] [])
     (io_trace (unconstructed None []) @ [GetAttr ''voltage0'' ''sampling_frequency'' False])
     ''out'' ''voltage_filter_fir_en'' False \<noteq> 0 \<and>
   sample_rate_events (steady_device 1000000 1 [] [] []) 30000000 (unconstructed None []) =
     [GetAttr ''voltage0'' ''sampling_frequency'' False,
      GetAttr ''out'' ''voltage_filter_fir_en'' False,
      SetAttr ''voltage0'' ''sampling_frequency'' False (IntV 3000000),
      SetAttr ''out'' ''voltage_filter_fir_en'' False (IntV 0),
      SetDevAttrStr ''filter_fir_config'' (unlines (spec_config_lines (filter_table 30000000))),
      SetAttr ''voltage0'' ''sampling_frequency'' False (IntV 30000000),
      SetAttr ''out'' ''voltage_filter_fir_en'' False (IntV 1)] \<and>
   take 4 (sample_rate_events (steady_device 1000000 1 [] [] []) 30000000 (unconstructed None [])) =
     [GetAttr ''voltage0'' ''sampling_frequency'' False,
      GetAttr ''out'' ''voltage_filter_fir_en'' False,
      SetAttr ''voltage0'' ''sampling_frequency'' False (IntV 3000000),
      SetAttr ''out'' ''voltage_filter_fir_en'' False (IntV 0)] \<and>
   (3::nat) < length (sample_rate_events (steady_device 1000000 1 [] [] []) 30000000
                        (unconstructed None [])) \<and>
   sample_rate_events (steady_device 1000000 1 [] [] []) 30000000 (unconstructed None []) ! 3 =
     SetAttr ''out'' ''voltage_filter_fir_en'' False (IntV 0) \<and>
   sample_rate_events (steady_device 1000000 1 [] [] []) 30000000 (unconstructed None []) ! (3 - 1) =
     SetAttr ''voltage0'' ''sampling_frequency'' False (IntV 3000000)"
proof -
  let ?dev = "steady_device 1000000 1 [] [] []"
  let ?ev = "sample_rate_events ?dev 30000000 (unconstructed None [])"
  have low: "real_of_int (attr_value ?dev (io_trace (unconstructed None []))
                  ''voltage0'' ''sampling_frequency'' False) \<le> 25000000 / 12"
    by (simp add: steady_device_def)
  have v: "521000 \<le> (30000000::int)" by simp
  have en: "attr_value ?dev
     (io_trace (unconstructed None []) @ [GetAttr ''voltage0'' ''sampling_frequency'' False])
     ''out'' ''voltage_filter_fir_en'' False \<noteq> 0"
    by (simp add: steady_device_def)
  have ev: "?ev =
     [GetAttr ''voltage0'' ''sampling_frequency'' False,
      GetAttr ''out'' ''voltage_filter_fir_en'' False,
      SetAttr ''voltage0'' ''sampling_frequency'' False (IntV 3000000),
      SetAttr ''out'' ''voltage_filter_fir_en'' False (IntV 0),
      SetDevAttrStr ''filter_fir_config'' (unlines (spec_config_lines (filter_table 30000000))),
      SetAttr ''voltage0'' ''sampling_frequency'' False (IntV 30000000),
      SetAttr ''out'' ''voltage_filter_fir_en'' False (IntV 1)]"
    by (simp add: sample_rate_events_def sample_rate_setter_def fir_program_table fir_enable_def
        set_iio_attr_def steady_device_def unconstructed_def)
  have len: "(3::nat) < length ?ev" by (simp add: ev)
  note T = bootstrap_before_disable [OF low, of 30000000]
  from T v en have t4: "take 4 ?ev =
     [GetAttr ''voltage0'' ''sampling_frequency'' False,
      GetAttr ''out'' ''voltage_filter_fir_en'' False,
      SetAttr ''voltage0'' ''sampling_frequency'' False (IntV 3000000),
      SetAttr ''out'' ''voltage_filter_fir_en'' False (IntV 0)]"
    by blast
  have at: "?ev ! 3 = SetAttr ''out'' ''voltage_filter_fir_en'' False (IntV 0)"
    by (simp add: ev)
  from T len at have "?ev ! (3 - 1) = SetAttr ''voltage0'' ''sampling_frequency'' False (IntV 3000000)"
    by blast
  with low v en ev t4 len at show ?thesis by blast
qed

subsection \<open>The configuration string that is written\<close>

text \<open>
  C6. For the profile selected for any rate, the assembled string is the
  header line \<open>RX 3 GAIN -6 DEC d\<close>, the header line \<open>TX 3 GAIN 0 INT d\<close>, one
  line \<open>c,c\<close> for each coefficient in order, and one empty line, each ended
  by a line feed and none holding a line feed inside. The coefficient list has
  as many entries as the tap count says. When the rate is valid, this string
  and no other is written to the attribute \<^verbatim>\<open>filter_fir_config\<close>.
\<close>

theorem fir_config_payload:
  "fir_config_string (filter_table r) = Inr (unlines (spec_config_lines (filter_table r))) \<and>
   int (length (fir (filter_table r))) = taps (filter_table r) \<and>
   length (spec_config_lines (filter_table r)) = 2 + nat (taps (filter_table r)) + 1 \<and>
   (\<forall>l \<in> set (spec_config_lines (filter_table r)). CHR 0x0A \<notin> set l) \<and>
   (521000 \<le> r \<longrightarrow>
      (\<forall>c. (SetDevAttrStr ''filter_fir_config'' c \<in> set (sample_rate_events dev r self)) =
            (c = unlines (spec_config_lines (filter_table r)))))"
proof (intro conjI impI allI)
  show "fir_config_string (filter_table r) = Inr (unlines (spec_config_lines (filter_table r)))"
    by (rule fir_config_string_table)
  show "int (length (fir (filter_table r))) = taps (filter_table r)"
    by (rule filter_table_length)
  show "length (spec_config_lines (filter_table r)) = 2 + nat (taps (filter_table r)) + 1"
    by (simp add: spec_config_lines_def filter_table_taps)
  show "\<forall>l \<in> set (spec_config_lines (filter_table r)). CHR 0x0A \<notin> set l"
    by (auto simp add: spec_config_lines_def str_int_no_NL)
next
  fix c
  assume v: "521000 \<le> r"
  from sample_rate_events_shape [OF v, of dev self] obtain tail where
    ev: "sample_rate_events dev r self =
             [GetAttr ''voltage0'' ''sampling_frequency'' False,
              GetAttr ''out'' ''voltage_filter_fir_en'' False] @
             (if attr_value dev (io_trace self @ [GetAttr ''voltage0'' ''sampling_frequency'' False])
                   ''out'' ''voltage_filter_fir_en'' False \<noteq> 0
              then (if attr_value dev (io_trace self) ''voltage0'' ''sampling_frequency'' False
                         \<le> 25000000 div 12
                    then [SetAttr ''voltage0'' ''sampling_frequency'' False (IntV 3000000)] else []) @
                   [SetAttr ''out'' ''voltage_filter_fir_en'' False (IntV 0)]
              else []) @
             [SetDevAttrStr ''filter_fir_config'' (unlines (spec_config_lines (filter_table r)))] @
             tail"
    and tail: "set tail \<subseteq> {GetDevAttrStr ''tx_path_rates'',
                         SetAttr ''voltage0'' ''sampling_frequency'' False (IntV 3000000),
                         SetAttr ''out'' ''voltage_filter_fir_en'' False (IntV 1),
                         SetAttr ''voltage0'' ''sampling_frequency'' False (IntV r)}"
    by blast
  from tail have nt: "SetDevAttrStr ''filter_fir_config'' c \<notin> set tail" by auto
  show "(SetDevAttrStr ''filter_fir_config'' c \<in> set (sample_rate_events dev r self)) =
        (c = unlines (spec_config_lines (filter_table r)))"
    using nt by (auto simp add: ev)
qed

theorem fir_config_payload_witness:
  "521000 \<le> (60000000::int) \<and>
   fir_config_string (filter_table 60000000) =
     Inr (''RX 3 GAIN -6 DEC 2\<newline>TX 3 GAIN 0 INT 2\<newline>'' @
      ''-58,-58\<newline>0,0\<newline>83,83\<newline>0,0\<newline>'' @
      ''-127,-127\<newline>0,0\<newline>185,185\<newline>0,0\<newline>'' @
      ''-262,-262\<newline>0,0\<newline>361,361\<newline>0,0\<newline>'' @
      ''-488,-488\<newline>0,0\<newline>648,648\<newline>0,0\<newline>'' @
      ''-853,-853\<newline>0,0\<newline>1117,1117\<newline>0,0\<newline>'' @
      ''-1466,-1466\<newline>0,0\<newline>1954,1954\<newline>0,0\<newline>'' @
      ''-2689,-2689\<newline>0,0\<newline>3960,3960\<newline>0,0\<newline>'' @
      ''-6825,-6825\<newline>0,0\<newline>20818,20818\<newline>'' @
      ''32767,32767\<newline>20818,20818\<newline>0,0\<newline>'' @
      ''-6825,-6825\<newline>0,0\<newline>3960,3960\<newline>0,0\<newline>'' @
      ''-2689,-2689\<newline>0,0\<newline>1954,1954\<newline>0,0\<newline>'' @
      ''-1466,-1466\<newline>0,0\<newline>1117,1117\<newline>0,0\<newline>'' @
      ''-853,-853\<newline>0,0\<newline>648,648\<newline>0,0\<newline>'' @
      ''-488,-488\<newline>0,0\<newline>361,361\<newline>0,0\<newline>'' @
      ''-262,-262\<newline>0,0\<newline>185,185\<newline>0,0\<newline>'' @
      ''-127,-127\<newline>0,0\<newline>83,83\<newline>0,0\<newline>'' @
      ''-58,-58\<newline>0,0\<newline>\<newline>'') \<and>
   length (spec_config_lines (filter_table 60000000)) = 67 \<and>
   ''-58,-58'' \<in> set (spec_config_lines (filter_table 60000000)) \<and>
   CHR 0x0A \<notin> set ''-58,-58'' \<and>
   SetDevAttrStr ''filter_fir_config'' (unlines (spec_config_lines (filter_table 60000000)))
     \<in> set (sample_rate_events (steady_device 30720000 0 [] [] []) 60000000
               (unconstructed None []))"
proof -
  note T = fir_config_payload [of 60000000 "steady_device 30720000 0 [] [] []"
      "unconstructed None []"]
  have v: "521000 \<le> (60000000::int)" by simp
  have u: "unlines (spec_config_lines (filter_table 60000000)) =
     ''RX 3 GAIN -6 DEC 2\<newline>TX 3 GAIN 0 INT 2\<newline>'' @
      ''-58,-58\<newline>0,0\<newline>83,83\<newline>0,0\<newline>'' @
      ''-127,-127\<newline>0,0\<newline>185,185\<newline>0,0\<newline>'' @
      ''-262,-262\<newline>0,0\<newline>361,361\<newline>0,0\<newline>'' @
      ''-488,-488\<newline>0,0\<newline>648,648\<newline>0,0\<newline>'' @
      ''-853,-853\<newline>0,0\<newline>1117,1117\<newline>0,0\<newline>'' @
      ''-1466,-1466\<newline>0,0\<newline>1954,1954\<newline>0,0\<newline>'' @
      ''-2689,-2689\<newline>0,0\<newline>3960,3960\<newline>0,0\<newline>'' @
      ''-6825,-6825\<newline>0,0\<newline>20818,20818\<newline>'' @
      ''32767,32767\<newline>20818,20818\<newline>0,0\<newline>'' @
      ''-6825,-6825\<newline>0,0\<newline>3960,3960\<newline>0,0\<newline>'' @
      ''-2689,-2689\<newline>0,0\<newline>1954,1954\<newline>0,0\<newline>'' @
      ''-1466,-1466\<newline>0,0\<newline>1117,1117\<newline>0,0\<newline>'' @
      ''-853,-853\<newline>0,0\<newline>648,648\<newline>0,0\<newline>'' @
      ''-488,-488\<newline>0,0\<newline>361,361\<newline>0,0\<newline>'' @
      ''-262,-262\<newline>0,0\<newline>185,185\<newline>0,0\<newline>'' @
      ''-127,-127\<newline>0,0\<newline>83,83\<newline>0,0\<newline>'' @
      ''-58,-58\<newline>0,0\<newline>\<newline>''"
    by (simp add: unlines_def spec_config_lines_def filter_table_def fir_max_def str_int_def
        str_nat.simps NL_def)
  have m: "''-58,-58'' \<in> set (spec_config_lines (filter_table 60000000))"
    by (simp add: spec_config_lines_def filter_table_def fir_max_def str_int_def str_nat.simps)
  from T m have n: "CHR 0x0A \<notin> set ''-58,-58''" by blast
  from T have l: "length (spec_config_lines (filter_table 60000000)) = 67"
    by (simp add: filter_table_def)
  from T v have w: "SetDevAttrStr ''filter_fir_config''
      (unlines (spec_config_lines (filter_table 60000000)))
     \<in> set (sample_rate_events (steady_device 30720000 0 [] [] []) 60000000
               (unconstructed None []))"
    by blast
  from T u have c: "fir_config_string (filter_table 60000000) = Inr (''RX 3 GAIN -6 DEC 2\<newline>TX 3 GAIN 0 INT 2\<newline>'' @
      ''-58,-58\<newline>0,0\<newline>83,83\<newline>0,0\<newline>'' @
      ''-127,-127\<newline>0,0\<newline>185,185\<newline>0,0\<newline>'' @
      ''-262,-262\<newline>0,0\<newline>361,361\<newline>0,0\<newline>'' @
      ''-488,-488\<newline>0,0\<newline>648,648\<newline>0,0\<newline>'' @
      ''-853,-853\<newline>0,0\<newline>1117,1117\<newline>0,0\<newline>'' @
      ''-1466,-1466\<newline>0,0\<newline>1954,1954\<newline>0,0\<newline>'' @
      ''-2689,-2689\<newline>0,0\<newline>3960,3960\<newline>0,0\<newline>'' @
      ''-6825,-6825\<newline>0,0\<newline>20818,20818\<newline>'' @
      ''32767,32767\<newline>20818,20818\<newline>0,0\<newline>'' @
      ''-6825,-6825\<newline>0,0\<newline>3960,3960\<newline>0,0\<newline>'' @
      ''-2689,-2689\<newline>0,0\<newline>1954,1954\<newline>0,0\<newline>'' @
      ''-1466,-1466\<newline>0,0\<newline>1117,1117\<newline>0,0\<newline>'' @
      ''-853,-853\<newline>0,0\<newline>648,648\<newline>0,0\<newline>'' @
      ''-488,-488\<newline>0,0\<newline>361,361\<newline>0,0\<newline>'' @
      ''-262,-262\<newline>0,0\<newline>185,185\<newline>0,0\<newline>'' @
      ''-127,-127\<newline>0,0\<newline>83,83\<newline>0,0\<newline>'' @
      ''-58,-58\<newline>0,0\<newline>\<newline>'')" by simp
  from v c l m n w show ?thesis by blast
qed

subsection \<open>The narrowband scenario at 1,000,000\<close>

lemma example_rates_1800:
  "path_rate ''BBPLL:900000000 DAC:225000000 T2:112500000 T1:56250000 TF:4000000 TXSAMP:2000000'' 1
     = Inr 225000000"
  "path_rate ''BBPLL:900000000 DAC:225000000 T2:112500000 T1:56250000 TF:4000000 TXSAMP:2000000'' 5
     = Inr 2000000"
  by (simp_all add: path_rate_def index_def py_int_def strip_def is_space_def int_unsigned_def
      digit_val_def digit_count_def int_max_str_digits_def)

text \<open>
  C7, as amended. The rate 1,000,000 selects 128 taps, and the call returns
  normally once \<^verbatim>\<open>max_rate\<close> has a value. When that value is below 128, the
  setter, after the configuration write and the read of \<^verbatim>\<open>tx_path_rates\<close>,
  writes the bootstrap rate 3,000,000, enables the filter and writes
  1,000,000. When the value is 128 or more, it enables the filter and writes
  1,000,000 with no bootstrap write in between.
\<close>

theorem narrowband_scenario:
  assumes "max_rate (dev_attr_str dev
                       (io_trace (snd (fir_program dev (filter_table 1000000) self)))
                       ''tx_path_rates'') = Inr m"
  shows "taps (filter_table 1000000) = 128 \<and>
         fst (sample_rate_setter dev 1000000 self) = Inr () \<and>
         (m < 128 \<longrightarrow>
            io_trace (snd (sample_rate_setter dev 1000000 self)) =
              io_trace (snd (fir_program dev (filter_table 1000000) self)) @
              [GetDevAttrStr ''tx_path_rates'',
               SetAttr ''voltage0'' ''sampling_frequency'' False (IntV 3000000),
               SetAttr ''out'' ''voltage_filter_fir_en'' False (IntV 1),
               SetAttr ''voltage0'' ''sampling_frequency'' False (IntV 1000000)]) \<and>
         (128 \<le> m \<longrightarrow>
            io_trace (snd (sample_rate_setter dev 1000000 self)) =
              io_trace (snd (fir_program dev (filter_table 1000000) self)) @
              [GetDevAttrStr ''tx_path_rates'',
               SetAttr ''out'' ''voltage_filter_fir_en'' False (IntV 1),
               SetAttr ''voltage0'' ''sampling_frequency'' False (IntV 1000000)])"
proof -
  have v: "521000 \<le> (1000000::int)" and l: "(1000000::int) \<le> 25000000 div 12" by simp_all
  have t: "taps (filter_table 1000000) = 128" by (simp add: filter_table_def)
  note run = trans [OF sample_rate_setter_valid [OF v] fir_enable_low [OF l assms]]
  show ?thesis by (simp add: run t)
qed

theorem narrowband_scenario_witness:
  "max_rate (dev_attr_str
      (steady_device 30720000 0 []
         ''BBPLL:896000000 DAC:56000000 T2:28000000 T1:14000000 TF:8000000 TXSAMP:8000000'' [])
      (io_trace (snd (fir_program
         (steady_device 30720000 0 []
            ''BBPLL:896000000 DAC:56000000 T2:28000000 T1:14000000 TF:8000000 TXSAMP:8000000'' [])
         (filter_table 1000000) (unconstructed None []))))
      ''tx_path_rates'') = Inr 112 \<and>
   (112::int) < 128 \<and>
   sample_rate_events
     (steady_device 30720000 0 []
        ''BBPLL:896000000 DAC:56000000 T2:28000000 T1:14000000 TF:8000000 TXSAMP:8000000'' [])
     1000000 (unconstructed None []) =
     [GetAttr ''voltage0'' ''sampling_frequency'' False,
      GetAttr ''out'' ''voltage_filter_fir_en'' False,
      SetDevAttrStr ''filter_fir_config'' (unlines (spec_config_lines (filter_table 1000000))),
      GetDevAttrStr ''tx_path_rates'',
      SetAttr ''voltage0'' ''sampling_frequency'' False (IntV 3000000),
      SetAttr ''out'' ''voltage_filter_fir_en'' False (IntV 1),
      SetAttr ''voltage0'' ''sampling_frequency'' False (IntV 1000000)] \<and>
   max_rate (dev_attr_str
      (steady_device 30720000 0 []
         ''BBPLL:900000000 DAC:225000000 T2:112500000 T1:56250000 TF:4000000 TXSAMP:2000000'' [])
      (io_trace (snd (fir_program
         (steady_device 30720000 0 []
            ''BBPLL:900000000 DAC:225000000 T2:112500000 T1:56250000 TF:4000000 TXSAMP:2000000'' [])
         (filter_table 1000000) (unconstructed None []))))
      ''tx_path_rates'') = Inr 1792 \<and>
   (128::int) \<le> 1792 \<and>
   sample_rate_events
     (steady_device 30720000 0 []
        ''BBPLL:900000000 DAC:225000000 T2:112500000 T1:56250000 TF:4000000 TXSAMP:2000000'' [])
     1000000 (unconstructed None []) =
     [GetAttr ''voltage0'' ''sampling_frequency'' False,
      GetAttr ''out'' ''voltage_filter_fir_en'' False,
      SetDevAttrStr ''filter_fir_config'' (unlines (spec_config_lines (filter_table 1000000))),
      GetDevAttrStr ''tx_path_rates'',
      SetAttr ''out'' ''voltage_filter_fir_en'' False (IntV 1),
      SetAttr ''voltage0'' ''sampling_frequency'' False (IntV 1000000)]"
proof -
  let ?a = "''BBPLL:896000000 DAC:56000000 T2:28000000 T1:14000000 TF:8000000 TXSAMP:8000000''"
  let ?b = "''BBPLL:900000000 DAC:225000000 T2:112500000 T1:56250000 TF:4000000 TXSAMP:2000000''"
  let ?da = "steady_device 30720000 0 [] ?a []"
  let ?db = "steady_device 30720000 0 [] ?b []"
  have ma: "max_rate (dev_attr_str ?da
              (io_trace (snd (fir_program ?da (filter_table 1000000) (unconstructed None []))))
              ''tx_path_rates'') = Inr 112"
    using max_rate_tokens [OF example_rates_low, of]
    by (simp add: steady_device_def)
  have mb: "max_rate (dev_attr_str ?db
              (io_trace (snd (fir_program ?db (filter_table 1000000) (unconstructed None []))))
              ''tx_path_rates'') = Inr 1792"
    using max_rate_tokens [OF example_rates_1800, of]
    by (simp add: steady_device_def)
  have la: "(112::int) < 128" and lb: "(128::int) \<le> 1792" by simp_all
  from narrowband_scenario [OF ma] la
  have "io_trace (snd (sample_rate_setter ?da 1000000 (unconstructed None []))) =
          io_trace (snd (fir_program ?da (filter_table 1000000) (unconstructed None []))) @
          [GetDevAttrStr ''tx_path_rates'',
           SetAttr ''voltage0'' ''sampling_frequency'' False (IntV 3000000),
           SetAttr ''out'' ''voltage_filter_fir_en'' False (IntV 1),
           SetAttr ''voltage0'' ''sampling_frequency'' False (IntV 1000000)]"
    by blast
  then have ea: "sample_rate_events ?da 1000000 (unconstructed None []) =
     [GetAttr ''voltage0'' ''sampling_frequency'' False,
      GetAttr ''out'' ''voltage_filter_fir_en'' False,
      SetDevAttrStr ''filter_fir_config'' (unlines (spec_config_lines (filter_table 1000000))),
      GetDevAttrStr ''tx_path_rates'',
      SetAttr ''voltage0'' ''sampling_frequency'' False (IntV 3000000),
      SetAttr ''out'' ''voltage_filter_fir_en'' False (IntV 1),
      SetAttr ''voltage0'' ''sampling_frequency'' False (IntV 1000000)]"
    by (simp add: sample_rate_events_def fir_program_table steady_device_def unconstructed_def)
  from narrowband_scenario [OF mb] lb
  have "io_trace (snd (sample_rate_setter ?db 1000000 (unconstructed None []))) =
          io_trace (snd (fir_program ?db (filter_table 1000000) (unconstructed None []))) @
          [GetDevAttrStr ''tx_path_rates'',
           SetAttr ''out'' ''voltage_filter_fir_en'' False (IntV 1),
           SetAttr ''voltage0'' ''sampling_frequency'' False (IntV 1000000)]"
    by blast
  then have eb: "sample_rate_events ?db 1000000 (unconstructed None []) =
     [GetAttr ''voltage0'' ''sampling_frequency'' False,
      GetAttr ''out'' ''voltage_filter_fir_en'' False,
      SetDevAttrStr ''filter_fir_config'' (unlines (spec_config_lines (filter_table 1000000))),
      GetDevAttrStr ''tx_path_rates'',
      SetAttr ''out'' ''voltage_filter_fir_en'' False (IntV 1),
      SetAttr ''voltage0'' ''sampling_frequency'' False (IntV 1000000)]"
    by (simp add: sample_rate_events_def fir_program_table steady_device_def unconstructed_def)
  from ma mb la lb ea eb show ?thesis by blast
qed

text \<open>
  C7 as stated fails. Lines 196 to 199 at the value 1800 and 128 taps enable
  the filter and write 1,000,000 without the bootstrap write, since 1800 is
  not below 128. A device whose DAC rate is 225,000,000 and whose TX rate is
  2,000,000 gives 1800 by the unrounded formula (the floored quotient of the
  code gives 1792, a multiple of 16 as always); with the filter flag unset the
  whole call never writes 3,000,000.
\<close>

theorem narrowband_1800_no_bootstrap:
  "taps (filter_table 1000000) = 128 \<and>
   narrow_commit 1800 (taps (filter_table 1000000)) 1000000 (unconstructed None []) =
     (unconstructed None [])
       \<lparr>io_trace := [SetAttr ''out'' ''voltage_filter_fir_en'' False (IntV 1),
                     SetAttr ''voltage0'' ''sampling_frequency'' False (IntV 1000000)]\<rparr> \<and>
   path_rate ''BBPLL:900000000 DAC:225000000 T2:112500000 T1:56250000 TF:4000000 TXSAMP:2000000'' 1
     = Inr 225000000 \<and>
   path_rate ''BBPLL:900000000 DAC:225000000 T2:112500000 T1:56250000 TF:4000000 TXSAMP:2000000'' 5
     = Inr 2000000 \<and>
   real_of_int 225000000 / real_of_int 2000000 * 16 = 1800 \<and>
   sample_rate_setter
     (steady_device 30720000 0 []
        ''BBPLL:900000000 DAC:225000000 T2:112500000 T1:56250000 TF:4000000 TXSAMP:2000000'' [])
     1000000 (unconstructed None []) =
     (Inr (),
      (unconstructed None [])
        \<lparr>io_trace :=
           [GetAttr ''voltage0'' ''sampling_frequency'' False,
            GetAttr ''out'' ''voltage_filter_fir_en'' False,
            SetDevAttrStr ''filter_fir_config'' (unlines (spec_config_lines (filter_table 1000000))),
            GetDevAttrStr ''tx_path_rates'',
            SetAttr ''out'' ''voltage_filter_fir_en'' False (IntV 1),
            SetAttr ''voltage0'' ''sampling_frequency'' False (IntV 1000000)]\<rparr>) \<and>
   SetAttr ''voltage0'' ''sampling_frequency'' False (IntV 3000000) \<notin>
     set (sample_rate_events
            (steady_device 30720000 0 []
               ''BBPLL:900000000 DAC:225000000 T2:112500000 T1:56250000 TF:4000000 TXSAMP:2000000'' [])
            1000000 (unconstructed None []))"
proof -
  let ?b = "''BBPLL:900000000 DAC:225000000 T2:112500000 T1:56250000 TF:4000000 TXSAMP:2000000''"
  let ?db = "steady_device 30720000 0 [] ?b []"
  have t: "taps (filter_table 1000000) = 128" by (simp add: filter_table_def)
  have n: "narrow_commit 1800 (taps (filter_table 1000000)) 1000000 (unconstructed None []) =
     (unconstructed None [])
       \<lparr>io_trace := [SetAttr ''out'' ''voltage_filter_fir_en'' False (IntV 1),
                     SetAttr ''voltage0'' ''sampling_frequency'' False (IntV 1000000)]\<rparr>"
    by (simp add: t narrow_commit_def set_iio_attr_def unconstructed_def)
  have q: "real_of_int 225000000 / real_of_int 2000000 * 16 = 1800" by simp
  have v: "521000 \<le> (1000000::int)" and l: "(1000000::int) \<le> 25000000 div 12" by simp_all
  have mb: "max_rate (dev_attr_str ?db
              (io_trace (snd (fir_program ?db (filter_table 1000000) (unconstructed None []))))
              ''tx_path_rates'') = Inr 1792"
    using max_rate_tokens [OF example_rates_1800, of]
    by (simp add: steady_device_def)
  note run = trans [OF sample_rate_setter_valid [OF v] fir_enable_low [OF l mb]]
  have s: "sample_rate_setter ?db 1000000 (unconstructed None []) =
     (Inr (),
      (unconstructed None [])
        \<lparr>io_trace :=
           [GetAttr ''voltage0'' ''sampling_frequency'' False,
            GetAttr ''out'' ''voltage_filter_fir_en'' False,
            SetDevAttrStr ''filter_fir_config'' (unlines (spec_config_lines (filter_table 1000000))),
            GetDevAttrStr ''tx_path_rates'',
            SetAttr ''out'' ''voltage_filter_fir_en'' False (IntV 1),
            SetAttr ''voltage0'' ''sampling_frequency'' False (IntV 1000000)]\<rparr>)"
    by (simp only: run) (simp add: t fir_program_table steady_device_def unconstructed_def)
  have e: "SetAttr ''voltage0'' ''sampling_frequency'' False (IntV 3000000) \<notin>
     set (sample_rate_events ?db 1000000 (unconstructed None []))"
    by (simp only: sample_rate_events_def s) (simp add: unconstructed_def)
  from t n q s e example_rates_1800 show ?thesis by blast
qed

end
